theory Spec2Isabelle
  imports Main "HOL-Library.Option_ord"
begin

section \<open>The persisted state\<close>

text \<open>
  The services keep all their state in the tables of the schema and reach it through
  \<^verbatim>\<open>db.query\<close> and \<^verbatim>\<open>db.transaction\<close>. A table is the list of its rows in
  insertion order; a row is a record of the columns some modelled statement reads or
  writes. A \<^verbatim>\<open>UUID\<close> is an opaque string, a \<^verbatim>\<open>TIMESTAMP\<close> is a number of
  milliseconds, a nullable column is an \<open>option\<close>; a column with a default that no
  modelled statement sets to \<^verbatim>\<open>NULL\<close> (a counter, a capacity, a flag) holds its
  value. Every \<^verbatim>\<open>NOW()\<close> and
  \<^verbatim>\<open>new Date()\<close> of one call reads the same instant \<open>now\<close>, and the values the
  code draws from outside (generated row ids, random codes, what a collaborator
  answers) are arguments of the modelled function.
\<close>

type_synonym uuid = string
type_synonym timestamp = int

datatype user_role =
  Patient | Gp | Specialist | Pharmacy_admin | Diagnostics_admin | Ops_admin | Support
  | Super_admin

datatype consultation_status = Requested | Matched | Active | Extended | Completed | Cancelled

datatype provider_type = Provider_gp | Provider_specialist

datatype prescription_status = Rx_active | Rx_claimed | Rx_fulfilled | Rx_expired

datatype claim_status = Ready | Dispensed | Disputed

datatype auth_code_status = Pending | Verified | Expired | Locked

record user =
  u_id :: uuid
  phone_number :: string
  phone_verified_at :: "timestamp option"
  full_name :: "string option"
  role :: user_role

record provider =
  p_id :: uuid
  p_user_id :: "uuid option"
  p_provider_type :: provider_type
  license_number :: string
  max_concurrent_sessions :: int
  p_is_active :: bool

record consultation =
  c_id :: uuid
  c_patient_id :: uuid
  c_provider_id :: "uuid option"
  c_status :: consultation_status
  ai_intake_summary :: string
  consultation_notes :: "string option"
  c_started_at :: "timestamp option"
  c_ended_at :: "timestamp option"
  duration_minutes :: "int option"
  capacity_cap_minutes :: int
  referral_extension_applied :: bool
  c_updated_at :: timestamp

text \<open>One element of \<^verbatim>\<open>prescriptionData.medications\<close>, as the caller sends it: any
  property may be missing, and a missing one reaches the database as \<^verbatim>\<open>NULL\<close>.\<close>

record medication =
  m_name :: "string option"
  m_strength :: "string option"
  m_form :: "string option"
  m_quantity :: "string option"
  m_instructions :: "string option"
  m_substitution_allowed :: "bool option"

record prescription =
  rx_id :: uuid
  rx_consultation_id :: uuid
  prescribing_provider_id :: uuid
  rx_patient_id :: uuid
  prescription_data :: "medication list"
  qr_code_data :: string
  qr_enabled :: bool
  pdf_url :: "string option"
  pdf_downloaded_at :: "timestamp option"
  rx_status :: prescription_status
  fulfilled_at :: "timestamp option"
  fulfilling_pharmacy_id :: "uuid option"
  expires_at :: timestamp
  rx_created_at :: timestamp

record prescription_item =
  it_prescription_id :: uuid
  drug_name :: string
  strength :: "string option"
  form :: "string option"
  quantity :: "string option"
  instructions :: "string option"
  substitution_allowed :: bool

record pharmacy_claim =
  cl_prescription_id :: uuid
  cl_pharmacy_id :: uuid
  cl_status :: claim_status
  dispensed_items :: "string list option"
  cl_created_at :: timestamp

record wa_auth_code =
  otp_id :: uuid
  otp_phone_number :: string
  code_hash :: string
  attempts :: int
  otp_status :: auth_code_status
  wa_message_id :: "string option"
  ttl_expires_at :: timestamp
  verified_at :: "timestamp option"

record video_call_event =
  v_consultation_id :: uuid
  v_channel :: string
  v_started_at :: timestamp
  v_ended_at :: "timestamp option"

record audit_event =
  a_user_id :: "uuid option"
  event_type :: string
  resource_type :: string
  resource_id :: uuid
  event_data :: string

record db =
  users :: "user list"
  providers :: "provider list"
  consultations :: "consultation list"
  prescriptions :: "prescription list"
  prescription_items :: "prescription_item list"
  pharmacy_claims :: "pharmacy_claim list"
  wa_auth_codes :: "wa_auth_code list"
  video_call_events :: "video_call_event list"
  audit_events :: "audit_event list"

text \<open>
  What a call throws: an \<^verbatim>\<open>AppError\<close> with its message and HTTP status, the
  \<^verbatim>\<open>TypeError\<close> of reading a property of \<^verbatim>\<open>rows[0]\<close> when the query returned
  no row, or an error of the database driver. A call returns its outcome together with
  the state it leaves, since a statement that ran before a throw stays committed unless
  the call runs in \<^verbatim>\<open>db.transaction\<close>.
\<close>

datatype error = AppError string nat | TypeError | DbError string

type_synonym 'a result = "error + 'a"

text \<open>\<^verbatim>\<open>Database.transaction\<close>: \<^verbatim>\<open>COMMIT\<close> when the callback returns,
  \<^verbatim>\<open>ROLLBACK\<close> and rethrow when it throws.\<close>

definition transaction :: "(db \<Rightarrow> 'a result \<times> db) \<Rightarrow> db \<Rightarrow> 'a result \<times> db" where
  "transaction callback s =
     (case callback s of
        (Inl e, _) \<Rightarrow> (Inl e, s)
      | (Inr v, s') \<Rightarrow> (Inr v, s'))"

section \<open>AuthService\<close>

text \<open>
  \<^verbatim>\<open>WhatsAppService.sendOTP\<close>: the message id of the response, and a 503
  \<^verbatim>\<open>AppError\<close> for every failure of the HTTP call or a response without an id. The
  HTTP call is the argument \<open>post\<close>: \<open>None\<close> stands for a failure or a missing id.
\<close>

definition sendOTP :: "(string \<Rightarrow> string \<Rightarrow> string option) \<Rightarrow> string \<Rightarrow> string \<Rightarrow> string result" where
  "sendOTP post phoneNumber otp =
     (case post phoneNumber otp of
        Some messageId \<Rightarrow> Inr messageId
      | None \<Rightarrow> Inl (AppError ''Failed to send OTP via WhatsApp'' 503))"

definition is_pending_for :: "string \<Rightarrow> wa_auth_code \<Rightarrow> bool" where
  "is_pending_for phoneNumber r = (otp_phone_number r = phoneNumber \<and> otp_status r = Pending)"

text \<open>
  The statement
  \<^verbatim>\<open>INSERT INTO wa_auth_codes (phone_number, code_hash, ttl_expires_at, status)
  VALUES ($1, $2, $3, 'pending') ON CONFLICT (phone_number) WHERE status = 'pending'
  DO UPDATE SET code_hash = $2, ttl_expires_at = $3, attempts = 0\<close>:
  a pending row of the phone number is updated in place, and a row is inserted when
  there is none. The inserted row takes the column defaults (\<open>attempts = 0\<close>, no
  message id, not verified) and the generated id \<open>new_id\<close>.
\<close>

definition upsert_pending ::
  "uuid \<Rightarrow> string \<Rightarrow> string \<Rightarrow> timestamp \<Rightarrow> wa_auth_code list \<Rightarrow> wa_auth_code list" where
  "upsert_pending new_id phoneNumber otpHash expiresAt rows =
     (if list_ex (is_pending_for phoneNumber) rows
      then map (\<lambda>r. if is_pending_for phoneNumber r
                     then r\<lparr>code_hash := otpHash, ttl_expires_at := expiresAt, attempts := 0\<rparr>
                     else r) rows
      else rows @ [\<lparr>otp_id = new_id, otp_phone_number = phoneNumber, code_hash = otpHash,
                     attempts = 0, otp_status = Pending, wa_message_id = None,
                     ttl_expires_at = expiresAt, verified_at = None\<rparr>])"

text \<open>
  \<^verbatim>\<open>AuthService.requestOTP\<close>. The conflict target of its upsert is a partial unique
  index on \<^verbatim>\<open>wa_auth_codes (phone_number) WHERE status = 'pending'\<close>, which the
  schema file does not declare; \<open>pending_index\<close> says whether the database has it.
  Without it the database rejects the statement and the call throws before it writes.
  The six-digit code \<open>otp\<close> and its bcrypt hash \<open>otpHash\<close> are drawn outside.
  The first query of the function, the user of the phone number, is not modelled: its
  result is never read. The cap is checked on \<^verbatim>\<open>rows[0]\<close> of the pending, unexpired
  codes of the number.
\<close>

definition requestOTP ::
  "bool \<Rightarrow> (string \<Rightarrow> string \<Rightarrow> string option) \<Rightarrow> string \<Rightarrow> string \<Rightarrow> uuid \<Rightarrow> timestamp \<Rightarrow>
   string \<Rightarrow> db \<Rightarrow> unit result \<times> db" where
  "requestOTP pending_index post otp otpHash new_id now phoneNumber s =
     (let expiresAt = now + 5 * 60 * 1000;
          existingOTP = filter (\<lambda>r. is_pending_for phoneNumber r \<and> ttl_expires_at r > now)
                          (wa_auth_codes s)
      in if existingOTP \<noteq> [] \<and> attempts (hd existingOTP) \<ge> 5
         then (Inl (AppError ''Too many OTP attempts. Please try again later.'' 429), s)
         else if pending_index = False
         then (Inl (DbError ''there is no unique or exclusion constraint matching the ON CONFLICT specification''), s)
         else
           let s1 = s\<lparr>wa_auth_codes :=
                        upsert_pending new_id phoneNumber otpHash expiresAt (wa_auth_codes s)\<rparr>
           in case sendOTP post phoneNumber otp of
                Inl e \<Rightarrow> (Inl e, s1)
              | Inr messageId \<Rightarrow>
                  (Inr (),
                   s1\<lparr>wa_auth_codes :=
                        map (\<lambda>r. if is_pending_for phoneNumber r
                                 then r\<lparr>wa_message_id := Some messageId\<rparr> else r)
                          (wa_auth_codes s1)\<rparr>))"

record AuthPayload =
  jwt_userId :: uuid
  jwt_role :: user_role
  jwt_sessionId :: string

text \<open>
  \<^verbatim>\<open>AuthService.verifyOTP\<close>. \<open>compare\<close> is \<^verbatim>\<open>bcrypt.compare\<close>, \<open>sign\<close> is
  \<^verbatim>\<open>jwt.sign\<close> with the configured secret and lifetime, \<open>new_user_id\<close> the id the
  database generates for an inserted user and \<open>session\<close> the random session id.
\<close>

definition verifyOTP ::
  "(string \<Rightarrow> string \<Rightarrow> bool) \<Rightarrow> (AuthPayload \<Rightarrow> string) \<Rightarrow> uuid \<Rightarrow> string \<Rightarrow> timestamp \<Rightarrow>
   string \<Rightarrow> string \<Rightarrow> db \<Rightarrow> (string \<times> user) result \<times> db" where
  "verifyOTP compare sign new_user_id session now phoneNumber code s =
     (case filter (is_pending_for phoneNumber) (wa_auth_codes s) of
        [] \<Rightarrow> (Inl (AppError ''No pending OTP found'' 404), s)
      | otpRecord # _ \<Rightarrow>
          if now > ttl_expires_at otpRecord
          then (Inl (AppError ''OTP has expired'' 401),
                s\<lparr>wa_auth_codes :=
                     map (\<lambda>r. if otp_id r = otp_id otpRecord then r\<lparr>otp_status := Expired\<rparr> else r)
                       (wa_auth_codes s)\<rparr>)
          else if compare code (code_hash otpRecord) = False
          then (Inl (AppError ''Invalid OTP'' 401),
                s\<lparr>wa_auth_codes :=
                     map (\<lambda>r. if otp_id r = otp_id otpRecord then r\<lparr>attempts := attempts r + 1\<rparr> else r)
                       (wa_auth_codes s)\<rparr>)
          else
            let s1 = s\<lparr>wa_auth_codes :=
                         map (\<lambda>r. if otp_id r = otp_id otpRecord
                                  then r\<lparr>otp_status := Verified, verified_at := Some now\<rparr> else r)
                           (wa_auth_codes s)\<rparr>;
                (usr, s2) =
                  (case filter (\<lambda>u. phone_number u = phoneNumber) (users s1) of
                     [] \<Rightarrow>
                       (let newUser = \<lparr>u_id = new_user_id, phone_number = phoneNumber,
                                       phone_verified_at = Some now, full_name = None,
                                       role = Patient\<rparr>
                        in (newUser, s1\<lparr>users := users s1 @ [newUser]\<rparr>))
                   | u # _ \<Rightarrow>
                       (u, s1\<lparr>users := map (\<lambda>v. if u_id v = u_id u
                                               then v\<lparr>phone_verified_at := Some now\<rparr> else v)
                                          (users s1)\<rparr>));
                payload = \<lparr>jwt_userId = u_id usr, jwt_role = role usr, jwt_sessionId = session\<rparr>;
                token = sign payload
            in (Inr (token, usr),
                s2\<lparr>audit_events := audit_events s2 @
                      [\<lparr>a_user_id = Some (u_id usr), event_type = ''auth.login'',
                        resource_type = ''user'', resource_id = u_id usr,
                        event_data = ''{method: whatsapp_otp}''\<rparr>]\<rparr>))"

section \<open>PrescriptionService\<close>

text \<open>
  Storing a string in a \<^verbatim>\<open>VARCHAR(n)\<close> column: the database raises
  \<^verbatim>\<open>value too long\<close> for a string of more than \<open>n\<close> characters, unless the
  characters beyond the \<open>n\<close>th are all spaces, which it drops. \<open>None\<close> is the
  error. A string is the list of its characters. A missing value is stored as
  \<^verbatim>\<open>NULL\<close> in a column that allows it.
\<close>

definition varchar :: "nat \<Rightarrow> string \<Rightarrow> string option" where
  "varchar n x = (if list_all (\<lambda>c. c = CHR '' '') (drop n x) then Some (take n x) else None)"

definition varchar_null :: "nat \<Rightarrow> string option \<Rightarrow> string option option" where
  "varchar_null n x = (case x of None \<Rightarrow> Some None | Some v \<Rightarrow> map_option Some (varchar n v))"

text \<open>
  The row one \<^verbatim>\<open>INSERT INTO prescription_items\<close> stores for a medication, or
  \<open>None\<close> when the database rejects it: \<^verbatim>\<open>drug_name\<close> is
  \<^verbatim>\<open>VARCHAR(255) NOT NULL\<close>, \<^verbatim>\<open>strength\<close>, \<^verbatim>\<open>form\<close> and \<^verbatim>\<open>quantity\<close> are
  \<^verbatim>\<open>VARCHAR(100)\<close>, \<^verbatim>\<open>instructions\<close> is \<^verbatim>\<open>TEXT\<close>. A missing
  \<^verbatim>\<open>substitution_allowed\<close> is stored as true.
\<close>

definition item_of_medication :: "uuid \<Rightarrow> medication \<Rightarrow> prescription_item option" where
  "item_of_medication prescriptionId item =
     (case m_name item of
        None \<Rightarrow> None
      | Some name \<Rightarrow>
          (case (varchar 255 name, varchar_null 100 (m_strength item),
                 varchar_null 100 (m_form item), varchar_null 100 (m_quantity item)) of
             (Some stored_name, Some stored_strength, Some stored_form, Some stored_quantity) \<Rightarrow>
               Some \<lparr>it_prescription_id = prescriptionId, drug_name = stored_name,
                      strength = stored_strength, form = stored_form,
                      quantity = stored_quantity, instructions = m_instructions item,
                      substitution_allowed =
                        (case m_substitution_allowed item of None \<Rightarrow> True | Some b \<Rightarrow> b)\<rparr>
           | _ \<Rightarrow> None))"

text \<open>The loop over \<^verbatim>\<open>prescriptionData.medications\<close>: one insert for each medication,
  in order, onto the rows already there; it stops at the first the database rejects.\<close>

fun insert_items :: "uuid \<Rightarrow> medication list \<Rightarrow> prescription_item list \<Rightarrow> prescription_item list option" where
  "insert_items prescriptionId [] rows = Some rows"
| "insert_items prescriptionId (item # items) rows =
     (case item_of_medication prescriptionId item of
        None \<Rightarrow> None
      | Some row \<Rightarrow> insert_items prescriptionId items (rows @ [row]))"

text \<open>
  What the schema asks of a new row of \<^verbatim>\<open>prescriptions\<close>: a primary key and a
  \<^verbatim>\<open>UNIQUE\<close> redemption token that no row has yet, and the consultation, the
  provider and the patient it references.
\<close>

definition prescription_insertable :: "db \<Rightarrow> prescription \<Rightarrow> bool" where
  "prescription_insertable s p =
     (rx_id p \<notin> set (map rx_id (prescriptions s)) \<and>
      qr_code_data p \<notin> set (map qr_code_data (prescriptions s)) \<and>
      rx_consultation_id p \<in> set (map c_id (consultations s)) \<and>
      prescribing_provider_id p \<in> set (map p_id (providers s)) \<and>
      rx_patient_id p \<in> set (map u_id (users s)))"

text \<open>
  \<^verbatim>\<open>createPrescription\<close>, one transaction. \<open>new_id\<close> is the id the database
  generates for the prescription, \<open>qrCodeData\<close> the 32 random bytes in hexadecimal,
  \<open>toDataURL\<close> the QR code renderer. \<open>in_thirty_days\<close> is
  \<^verbatim>\<open>expiresAt.setDate(expiresAt.getDate() + 30)\<close>: the same time of day thirty
  days later on the calendar of the server's time zone. \<open>prescriptionData\<close> stands
  for the object the caller sends by its \<^verbatim>\<open>medications\<close> array. An insert the
  database rejects throws, and the transaction rolls back. The patient the audit row
  references is the one the prescription references.
\<close>

definition createPrescription ::
  "(string \<Rightarrow> string) \<Rightarrow> (timestamp \<Rightarrow> timestamp) \<Rightarrow> uuid \<Rightarrow> string \<Rightarrow> timestamp \<Rightarrow> uuid \<Rightarrow>
   uuid \<Rightarrow> medication list \<Rightarrow> db \<Rightarrow> (prescription \<times> string) result \<times> db" where
  "createPrescription toDataURL in_thirty_days new_id qrCodeData now consultationId providerId
     prescriptionData =
     transaction (\<lambda>s.
       case filter (\<lambda>c. c_id c = consultationId) (consultations s) of
         [] \<Rightarrow> (Inl (AppError ''Consultation not found'' 404), s)
       | consultation # _ \<Rightarrow>
           let expiresAt = in_thirty_days now
           in case varchar 255 qrCodeData of
                None \<Rightarrow> (Inl (DbError ''INSERT INTO prescriptions''), s)
              | Some stored_qr \<Rightarrow>
                  let prescription =
                        \<lparr>rx_id = new_id, rx_consultation_id = consultationId,
                         prescribing_provider_id = providerId,
                         rx_patient_id = c_patient_id consultation,
                         prescription_data = prescriptionData, qr_code_data = stored_qr,
                         qr_enabled = True, pdf_url = None, pdf_downloaded_at = None,
                         rx_status = Rx_active, fulfilled_at = None,
                         fulfilling_pharmacy_id = None,
                         expires_at = expiresAt, rx_created_at = now\<rparr>
                  in if prescription_insertable s prescription = False
                     then (Inl (DbError ''INSERT INTO prescriptions''), s)
                     else
                       let s1 = s\<lparr>prescriptions := prescriptions s @ [prescription]\<rparr>
                       in case insert_items (rx_id prescription) prescriptionData
                                 (prescription_items s1) of
                            None \<Rightarrow> (Inl (DbError ''INSERT INTO prescription_items''), s1)
                          | Some rows \<Rightarrow>
                              let s2 = s1\<lparr>prescription_items := rows\<rparr>;
                                  qrCodeImage = toDataURL qrCodeData;
                                  s3 = s2\<lparr>audit_events := audit_events s2 @
                                            [\<lparr>a_user_id = Some (c_patient_id consultation),
                                              event_type = ''prescription.created'',
                                              resource_type = ''prescription'',
                                              resource_id = rx_id prescription,
                                              event_data =
                                                ''{provider_id: '' @ providerId @ ''}''\<rparr>]\<rparr>
                              in (Inr (prescription, qrCodeImage), s3))"

text \<open>What \<^verbatim>\<open>verifyPrescriptionQR\<close> returns: \<^verbatim>\<open>{ valid: false, reason }\<close> or
  \<^verbatim>\<open>{ valid: true, prescription }\<close>, the prescription being the object the
  function builds for the pharmacy.\<close>

record medication_view =
  mv_drug_name :: string
  mv_strength :: "string option"
  mv_form :: "string option"
  mv_quantity :: "string option"
  mv_instructions :: "string option"

record prescription_view =
  pv_id :: uuid
  pv_medications :: "medication_view list"
  prescribing_doctor :: string
  issue_date :: timestamp

datatype verification = Invalid string | Valid prescription_view

text \<open>The first query of \<^verbatim>\<open>verifyPrescriptionQR\<close>: the prescriptions with the
  scanned code, each joined with its patient's row for the patient's name.\<close>

definition prescriptions_by_qr :: "db \<Rightarrow> string \<Rightarrow> (prescription \<times> string option) list" where
  "prescriptions_by_qr s qrCodeData =
     concat (map (\<lambda>p. map (\<lambda>u. (p, full_name u)) (filter (\<lambda>u. u_id u = rx_patient_id p) (users s)))
               (filter (\<lambda>p. qr_code_data p = qrCodeData) (prescriptions s)))"

definition view_of_item :: "prescription_item \<Rightarrow> medication_view" where
  "view_of_item i =
     \<lparr>mv_drug_name = drug_name i, mv_strength = strength i, mv_form = form i,
      mv_quantity = quantity i, mv_instructions = instructions i\<rparr>"

definition verifyPrescriptionQR :: "timestamp \<Rightarrow> string \<Rightarrow> uuid \<Rightarrow> db \<Rightarrow> verification \<times> db" where
  "verifyPrescriptionQR now qrCodeData pharmacyId s =
     (case prescriptions_by_qr s qrCodeData of
        [] \<Rightarrow> (Invalid ''invalid_code'', s)
      | (prescriptionData, patient_name) # _ \<Rightarrow>
          if qr_enabled prescriptionData = False then (Invalid ''pdf_downloaded'', s)
          else if now > expires_at prescriptionData then (Invalid ''expired'', s)
          else if rx_status prescriptionData = Rx_fulfilled then (Invalid ''already_used'', s)
          else
            let items = map view_of_item
                          (filter (\<lambda>i. it_prescription_id i = rx_id prescriptionData)
                             (prescription_items s));
                s1 = s\<lparr>pharmacy_claims := pharmacy_claims s @
                         [\<lparr>cl_prescription_id = rx_id prescriptionData,
                           cl_pharmacy_id = pharmacyId, cl_status = Ready,
                           dispensed_items = None, cl_created_at = now\<rparr>]\<rparr>
            in (Valid \<lparr>pv_id = rx_id prescriptionData, pv_medications = items,
                       prescribing_doctor =
                         ''Dr. '' @ take 8 (prescribing_provider_id prescriptionData),
                       issue_date = rx_created_at prescriptionData\<rparr>, s1))"

text \<open>
  \<^verbatim>\<open>downloadPrescriptionPDF\<close>, one transaction. \<open>generatePrescriptionPDF\<close> is the
  PDF service and \<open>upload\<close> the object store; either may throw, which rolls the
  transaction back. The first query joins the prescription of that id and patient with
  the patient's and the provider's rows; the second reads the doctor's name and
  licence, \<^verbatim>\<open>provider.rows[0]\<close>, undefined when the provider has no user row. The
  source names the patient argument \<^verbatim>\<open>userId\<close>.
\<close>

definition prescription_of_patient :: "db \<Rightarrow> uuid \<Rightarrow> uuid \<Rightarrow> (prescription \<times> user \<times> provider) list" where
  "prescription_of_patient s prescriptionId patientId =
     concat (map (\<lambda>p. concat (map (\<lambda>u. map (\<lambda>pr. (p, u, pr))
                                (filter (\<lambda>pr. p_id pr = prescribing_provider_id p) (providers s)))
                          (filter (\<lambda>u. u_id u = rx_patient_id p) (users s))))
               (filter (\<lambda>p. rx_id p = prescriptionId \<and> rx_patient_id p = patientId)
                  (prescriptions s)))"

definition provider_details :: "db \<Rightarrow> uuid \<Rightarrow> (string option \<times> string) list" where
  "provider_details s providerId =
     concat (map (\<lambda>p. map (\<lambda>u. (full_name u, license_number p))
                         (filter (\<lambda>u. p_user_id p = Some (u_id u)) (users s)))
               (filter (\<lambda>p. p_id p = providerId) (providers s)))"

definition downloadPrescriptionPDF ::
  "(prescription \<Rightarrow> (string option \<times> string) option \<Rightarrow> prescription_item list \<Rightarrow> string result) \<Rightarrow>
   (string \<Rightarrow> string \<Rightarrow> string \<Rightarrow> string result) \<Rightarrow> timestamp \<Rightarrow> uuid \<Rightarrow> uuid \<Rightarrow>
   db \<Rightarrow> (string \<times> string) result \<times> db" where
  "downloadPrescriptionPDF generatePrescriptionPDF upload now prescriptionId patientId =
     transaction (\<lambda>s.
       case prescription_of_patient s prescriptionId patientId of
         [] \<Rightarrow> (Inl (AppError ''Prescription not found'' 404), s)
       | (prescription, _) # _ \<Rightarrow>
           let provider = provider_details s (prescribing_provider_id prescription);
               items = filter (\<lambda>i. it_prescription_id i = prescriptionId) (prescription_items s)
           in case generatePrescriptionPDF prescription
                     (case provider of [] \<Rightarrow> None | d # _ \<Rightarrow> Some d) items of
                Inl e \<Rightarrow> (Inl e, s)
              | Inr pdfBuffer \<Rightarrow>
                  (case upload pdfBuffer (''prescriptions/'' @ prescriptionId @ ''.pdf'')
                          ''application/pdf'' of
                     Inl e \<Rightarrow> (Inl e, s)
                   | Inr pdfUrl \<Rightarrow>
                       let s1 = s\<lparr>prescriptions :=
                                    map (\<lambda>p. if rx_id p = prescriptionId
                                             then p\<lparr>qr_enabled := False, pdf_url := Some pdfUrl,
                                                    pdf_downloaded_at := Some now\<rparr>
                                             else p) (prescriptions s)\<rparr>;
                           s2 = s1\<lparr>audit_events := audit_events s1 @
                                     [\<lparr>a_user_id = Some patientId,
                                       event_type = ''prescription.pdf_downloaded'',
                                       resource_type = ''prescription'',
                                       resource_id = prescriptionId,
                                       event_data = ''{qr_disabled: true}''\<rparr>]\<rparr>
                       in (Inr (pdfUrl, pdfBuffer), s2)))"

text \<open>
  \<^verbatim>\<open>fulfillPrescription\<close>, one transaction of two updates and an audit insert. Neither
  update has a condition on the current status, and no statement of the body throws.
\<close>

definition fulfillPrescription ::
  "timestamp \<Rightarrow> uuid \<Rightarrow> uuid \<Rightarrow> string list \<Rightarrow> db \<Rightarrow> unit result \<times> db" where
  "fulfillPrescription now prescriptionId pharmacyId dispensedItems =
     transaction (\<lambda>s.
       let s1 = s\<lparr>pharmacy_claims :=
                    map (\<lambda>c. if cl_prescription_id c = prescriptionId \<and> cl_pharmacy_id c = pharmacyId
                             then c\<lparr>cl_status := Dispensed,
                                    dispensed_items := Some dispensedItems,
                                    cl_created_at := now\<rparr>
                             else c) (pharmacy_claims s)\<rparr>;
           s2 = s1\<lparr>prescriptions :=
                     map (\<lambda>p. if rx_id p = prescriptionId
                              then p\<lparr>rx_status := Rx_fulfilled, fulfilled_at := Some now,
                                     fulfilling_pharmacy_id := Some pharmacyId\<rparr>
                              else p) (prescriptions s1)\<rparr>;
           s3 = s2\<lparr>audit_events := audit_events s2 @
                     [\<lparr>a_user_id = None, event_type = ''prescription.fulfilled'',
                       resource_type = ''prescription'', resource_id = prescriptionId,
                       event_data = ''{pharmacy_id: '' @ pharmacyId @ ''}''\<rparr>]\<rparr>
       in (Inr (), s3))"

section \<open>ConsultationService\<close>

text \<open>
  The subquery of \<^verbatim>\<open>assignGP\<close> counts, for each provider id, the consultations in
  \<^verbatim>\<open>('matched', 'active', 'extended')\<close>. A provider with no such consultation has no
  row in the subquery, and the \<^verbatim>\<open>LEFT JOIN\<close> gives it a \<^verbatim>\<open>NULL\<close> count.
\<close>

definition active_count :: "db \<Rightarrow> uuid \<Rightarrow> int option" where
  "active_count s providerId =
     (let n = length (filter (\<lambda>c. c_provider_id c = Some providerId \<and>
                                  c_status c \<in> {Matched, Active, Extended})
                        (consultations s))
      in if n = 0 then None else Some (int n))"

text \<open>
  The query of \<^verbatim>\<open>assignGP\<close>: the active providers of type \<^verbatim>\<open>'gp'\<close> with
  \<^verbatim>\<open>c.active_count IS NULL OR c.active_count < p.max_concurrent_sessions\<close>, in the
  order \<^verbatim>\<open>c.active_count ASC NULLS FIRST\<close>, \<^verbatim>\<open>LIMIT 1\<close>. On \<open>option\<close>,
  \<open>None\<close> is below every \<open>Some n\<close>; providers with equal counts keep their table
  order.
\<close>

definition availableGP :: "db \<Rightarrow> provider list" where
  "availableGP s =
     take 1 (sort_key (\<lambda>p. active_count s (p_id p))
               (filter (\<lambda>p. p_provider_type p = Provider_gp \<and> p_is_active p = True \<and>
                             (case active_count s (p_id p) of
                                None \<Rightarrow> True
                              | Some n \<Rightarrow> n < max_concurrent_sessions p))
                  (providers s)))"

text \<open>
  \<^verbatim>\<open>assignGP\<close>. \<open>notifyUser\<close> is the notification service, \<open>Some e\<close> when it
  throws \<open>e\<close>. The calls are not in a transaction: what was written before a throw
  stays.
\<close>

definition assignGP ::
  "(uuid option \<Rightarrow> string \<Rightarrow> string \<Rightarrow> string \<Rightarrow> error option) \<Rightarrow> timestamp \<Rightarrow> uuid \<Rightarrow>
   db \<Rightarrow> unit result \<times> db" where
  "assignGP notifyUser now consultationId s =
     (case availableGP s of
        [] \<Rightarrow> (Inl (AppError ''No GP available at the moment'' 503), s)
      | gp # _ \<Rightarrow>
          let s1 = s\<lparr>consultations :=
                       map (\<lambda>c. if c_id c = consultationId
                                then c\<lparr>c_provider_id := Some (p_id gp), c_status := Matched,
                                       c_updated_at := now\<rparr>
                                else c) (consultations s)\<rparr>
          in case filter (\<lambda>p. p_id p = p_id gp) (providers s1) of
               [] \<Rightarrow> (Inl TypeError, s1)
             | gpUser # _ \<Rightarrow>
                 (case notifyUser (p_user_id gpUser) ''New Patient Assigned''
                         ''You have a new patient waiting for consultation'' ''in_app'' of
                    Some e \<Rightarrow> (Inl e, s1)
                  | None \<Rightarrow> (Inr (), s1)))"

text \<open>\<^verbatim>\<open>WhatsAppService.generateVideoCallLink\<close>; \<open>gpWhatsappNumber\<close> is the
  environment's \<^verbatim>\<open>GP_WHATSAPP_NUMBER\<close>.\<close>

definition generateVideoCallLink :: "string \<Rightarrow> (string \<Rightarrow> string) \<Rightarrow> uuid \<Rightarrow> string" where
  "generateVideoCallLink gpWhatsappNumber encodeURIComponent consultationId =
     ''https://wa.me'' @ ''/'' @ gpWhatsappNumber @ ''?text='' @
       encodeURIComponent (''Starting consultation '' @ consultationId)"

text \<open>
  \<^verbatim>\<open>startConsultation\<close>. The update has the condition
  \<^verbatim>\<open>WHERE id = $1 AND provider_id = $2\<close> and none on the status; the number of rows
  it changed is not read. The consultation is then read back with its patient's phone
  number and name (\<open>consultation_with_patient\<close>), and
  \<^verbatim>\<open>consultation.rows[0].phone_number\<close> throws when there is no such row. Sending the
  link never throws (\<^verbatim>\<open>sendNotification\<close> logs its errors) and leaves the state as
  it is.
\<close>

definition consultation_with_patient :: "db \<Rightarrow> uuid \<Rightarrow> (consultation \<times> string \<times> string option) list" where
  "consultation_with_patient s consultationId =
     concat (map (\<lambda>c. map (\<lambda>u. (c, phone_number u, full_name u))
                         (filter (\<lambda>u. u_id u = c_patient_id c) (users s)))
               (filter (\<lambda>c. c_id c = consultationId) (consultations s)))"

definition startConsultation ::
  "string \<Rightarrow> (string \<Rightarrow> string) \<Rightarrow> timestamp \<Rightarrow> uuid \<Rightarrow> uuid \<Rightarrow> db \<Rightarrow>
   ((consultation \<times> string \<times> string option) \<times> string) result \<times> db" where
  "startConsultation gpWhatsappNumber encodeURIComponent now consultationId providerId s =
     (let s1 = s\<lparr>consultations :=
                  map (\<lambda>c. if c_id c = consultationId \<and> c_provider_id c = Some providerId
                           then c\<lparr>c_status := Active, c_started_at := Some now\<rparr>
                           else c) (consultations s)\<rparr>
      in case consultation_with_patient s1 consultationId of
           [] \<Rightarrow> (Inl TypeError, s1)
         | consultation # _ \<Rightarrow>
             let videoCallLink =
                   generateVideoCallLink gpWhatsappNumber encodeURIComponent consultationId;
                 s2 = s1\<lparr>video_call_events := video_call_events s1 @
                           [\<lparr>v_consultation_id = consultationId, v_channel = ''whatsapp'',
                             v_started_at = now, v_ended_at = None\<rparr>]\<rparr>
             in (Inr (consultation, videoCallLink), s2))"

text \<open>
  \<^verbatim>\<open>endConsultation\<close>. The update has the condition \<^verbatim>\<open>WHERE id = $1\<close> only. The
  duration is the time since \<^verbatim>\<open>started_at\<close> in minutes, rounded to the nearest
  integer when it is stored, and \<^verbatim>\<open>NULL\<close> for a consultation that never started.
  \<^verbatim>\<open>result.rows[0].duration_minutes\<close> throws after both updates when no row was
  updated.
\<close>

definition endConsultation :: "timestamp \<Rightarrow> uuid \<Rightarrow> string \<Rightarrow> db \<Rightarrow> unit result \<times> db" where
  "endConsultation now consultationId notes s =
     (let result = filter (\<lambda>c. c_id c = consultationId) (consultations s);
          s1 = s\<lparr>consultations :=
                  map (\<lambda>c. if c_id c = consultationId
                           then c\<lparr>c_status := Completed, c_ended_at := Some now,
                                  consultation_notes := Some notes,
                                  duration_minutes :=
                                    (case c_started_at c of
                                       None \<Rightarrow> None
                                     | Some started \<Rightarrow> Some ((now - started + 30000) div 60000))\<rparr>
                           else c) (consultations s)\<rparr>;
          s2 = s1\<lparr>video_call_events :=
                    map (\<lambda>v. if v_consultation_id v = consultationId \<and> v_ended_at v = None
                             then v\<lparr>v_ended_at := Some now\<rparr> else v) (video_call_events s1)\<rparr>
      in case result of
           [] \<Rightarrow> (Inl TypeError, s2)
         | _ # _ \<Rightarrow> (Inr (), s2))"

text \<open>The values of a 32-bit \<^verbatim>\<open>INTEGER\<close> column.\<close>

definition int4 :: "int \<Rightarrow> bool" where
  "int4 v = (- 2147483648 \<le> v \<and> v \<le> 2147483647)"

text \<open>
  \<^verbatim>\<open>extendConsultation\<close>: one update with the condition \<^verbatim>\<open>WHERE id = $1\<close>, which
  reads neither the status nor \<^verbatim>\<open>referral_extension_applied\<close>. The reason is only
  logged. \<^verbatim>\<open>capacity_cap_minutes\<close> is a 32-bit \<^verbatim>\<open>INTEGER\<close>: when
  \<^verbatim>\<open>capacity_cap_minutes + 10\<close> leaves its range for a row of that id, the database
  raises \<^verbatim>\<open>integer out of range\<close>, the statement changes no row and the call
  rethrows.
\<close>

definition extendConsultation :: "uuid \<Rightarrow> string \<Rightarrow> db \<Rightarrow> unit result \<times> db" where
  "extendConsultation consultationId reason s =
     (if list_all (\<lambda>c. int4 (capacity_cap_minutes c + 10))
           (filter (\<lambda>c. c_id c = consultationId) (consultations s))
      then (Inr (),
            s\<lparr>consultations :=
                 map (\<lambda>c. if c_id c = consultationId
                          then c\<lparr>capacity_cap_minutes := capacity_cap_minutes c + 10,
                                 referral_extension_applied := True, c_status := Extended\<rparr>
                          else c) (consultations s)\<rparr>)
      else (Inl (DbError ''integer out of range''), s))"

section \<open>Sequences of calls and example states\<close>

text \<open>The number of pending codes a phone number has.\<close>

definition pending_count :: "string \<Rightarrow> db \<Rightarrow> nat" where
  "pending_count phoneNumber s = length (filter (is_pending_for phoneNumber) (wa_auth_codes s))"





text \<open>Stand-ins for the collaborators in the examples: a gateway that delivers every
  message, a hash that is the code behind a prefix, a token that names its payload.\<close>

definition example_post :: "string \<Rightarrow> string \<Rightarrow> string option" where
  "example_post phoneNumber otp = Some (''wamid.'' @ otp)"

definition example_compare :: "string \<Rightarrow> string \<Rightarrow> bool" where
  "example_compare code hash = (hash = ''bcrypt:'' @ code)"

definition example_sign :: "AuthPayload \<Rightarrow> string" where
  "example_sign payload = ''jwt:'' @ jwt_userId payload @ '':'' @ jwt_sessionId payload"

definition empty_db :: db where
  "empty_db = \<lparr>users = [], providers = [], consultations = [], prescriptions = [],
               prescription_items = [], pharmacy_claims = [], wa_auth_codes = [],
               video_call_events = [], audit_events = []\<rparr>"

text \<open>A pending code for \<^verbatim>\<open>+254700000001\<close> with \<open>n\<close> failed attempts, expiring at
  300000.\<close>

definition pending_code :: "int \<Rightarrow> wa_auth_code" where
  "pending_code n =
     \<lparr>otp_id = ''otp-1'', otp_phone_number = ''+254700000001'', code_hash = ''bcrypt:123456'',
      attempts = n, otp_status = Pending, wa_message_id = Some ''wamid.123456'',
      ttl_expires_at = 300000, verified_at = None\<rparr>"

definition auth_db :: "int \<Rightarrow> db" where
  "auth_db n = empty_db\<lparr>wa_auth_codes := [pending_code n]\<rparr>"

text \<open>
  A patient, a doctor who is a provider with the given capacity, a consultation of the
  patient in the given status with the given provider, and a prescription with
  redemption token \<^verbatim>\<open>T\<close>, one line item, the given \<^verbatim>\<open>qr_enabled\<close> flag and
  status, issued at 0 and expiring thirty days later.
\<close>

definition example_patient :: user where
  "example_patient =
     \<lparr>u_id = ''u-patient-1'', phone_number = ''+254700000001'', phone_verified_at = Some 0,
      full_name = Some ''Jane Patient'', role = Patient\<rparr>"

definition example_doctor :: user where
  "example_doctor =
     \<lparr>u_id = ''u-doctor-1'', phone_number = ''+254700000009'', phone_verified_at = Some 0,
      full_name = Some ''Amina Doctor'', role = Gp\<rparr>"

definition example_gp :: "int \<Rightarrow> provider" where
  "example_gp capacity =
     \<lparr>p_id = ''0a1b2c3d-1111-4222-8333-444455556666'', p_user_id = Some ''u-doctor-1'',
      p_provider_type = Provider_gp, license_number = ''LIC-001'',
      max_concurrent_sessions = capacity, p_is_active = True\<rparr>"

definition example_consultation :: "consultation_status \<Rightarrow> uuid option \<Rightarrow> consultation" where
  "example_consultation st gp =
     \<lparr>c_id = ''e-1'', c_patient_id = ''u-patient-1'', c_provider_id = gp, c_status = st,
      ai_intake_summary = ''{}'', consultation_notes = None, c_started_at = None,
      c_ended_at = None, duration_minutes = None, capacity_cap_minutes = 15,
      referral_extension_applied = False, c_updated_at = 0\<rparr>"

definition example_medication :: medication where
  "example_medication =
     \<lparr>m_name = Some ''Amoxicillin'', m_strength = Some ''500mg'', m_form = Some ''capsule'',
      m_quantity = Some ''21'', m_instructions = Some ''One capsule three times a day'',
      m_substitution_allowed = None\<rparr>"

definition example_item :: prescription_item where
  "example_item =
     \<lparr>it_prescription_id = ''rx-1'', drug_name = ''Amoxicillin'', strength = Some ''500mg'',
      form = Some ''capsule'', quantity = Some ''21'',
      instructions = Some ''One capsule three times a day'', substitution_allowed = True\<rparr>"

definition example_prescription :: "bool \<Rightarrow> prescription_status \<Rightarrow> prescription" where
  "example_prescription enabled st =
     \<lparr>rx_id = ''rx-1'', rx_consultation_id = ''e-1'',
      prescribing_provider_id = ''0a1b2c3d-1111-4222-8333-444455556666'',
      rx_patient_id = ''u-patient-1'', prescription_data = [example_medication],
      qr_code_data = ''T'', qr_enabled = enabled, pdf_url = None, pdf_downloaded_at = None,
      rx_status = st, fulfilled_at = None, fulfilling_pharmacy_id = None,
      expires_at = 2592000000, rx_created_at = 0\<rparr>"

definition clinic_db :: "consultation_status \<Rightarrow> uuid option \<Rightarrow> int \<Rightarrow> db" where
  "clinic_db st gp capacity =
     empty_db\<lparr>users := [example_patient, example_doctor], providers := [example_gp capacity],
              consultations := [example_consultation st gp]\<rparr>"

definition rx_db :: "bool \<Rightarrow> prescription_status \<Rightarrow> db" where
  "rx_db enabled st =
     (clinic_db Completed (Some ''0a1b2c3d-1111-4222-8333-444455556666'') 2)
       \<lparr>prescriptions := [example_prescription enabled st],
        prescription_items := [example_item]\<rparr>"

text \<open>The state after two pharmacies have each scanned the token of the example
  prescription.\<close>

definition two_claims_db :: db where
  "two_claims_db =
     snd (verifyPrescriptionQR 2000 ''T'' ''ph-2''
            (snd (verifyPrescriptionQR 1000 ''T'' ''ph-1'' (rx_db True Rx_active))))"

text \<open>Stand-ins for the PDF service and the object store.\<close>

definition example_pdf ::
  "prescription \<Rightarrow> (string option \<times> string) option \<Rightarrow> prescription_item list \<Rightarrow> string result" where
  "example_pdf p doctor items = Inr (''%PDF '' @ rx_id p)"

definition example_upload :: "string \<Rightarrow> string \<Rightarrow> string \<Rightarrow> string result" where
  "example_upload bytes key contentType = Inr (''https://store.example/'' @ key)"

text \<open>The prescription row \<^verbatim>\<open>createPrescription\<close> inserts for a consultation of the
  given patient, with the expiry and the redemption token as stored.\<close>

definition issued_prescription ::
  "uuid \<Rightarrow> string \<Rightarrow> timestamp \<Rightarrow> timestamp \<Rightarrow> uuid \<Rightarrow> uuid \<Rightarrow> uuid \<Rightarrow> medication list \<Rightarrow>
   prescription" where
  "issued_prescription new_id stored_qr now expiresAt consultationId providerId patientId
     prescriptionData =
     \<lparr>rx_id = new_id, rx_consultation_id = consultationId,
      prescribing_provider_id = providerId, rx_patient_id = patientId,
      prescription_data = prescriptionData, qr_code_data = stored_qr,
      qr_enabled = True, pdf_url = None, pdf_downloaded_at = None,
      rx_status = Rx_active, fulfilled_at = None, fulfilling_pharmacy_id = None,
      expires_at = expiresAt, rx_created_at = now\<rparr>"

text \<open>A calendar without daylight saving time, as in Nairobi: thirty days are thirty
  times twenty-four hours.\<close>

definition example_calendar :: "timestamp \<Rightarrow> timestamp" where
  "example_calendar now = now + 30 * 24 * 60 * 60 * 1000"

text \<open>A stand-in for the QR code renderer.\<close>

definition example_qr_image :: "string \<Rightarrow> string" where
  "example_qr_image qrCodeData = ''data:image/png;base64,'' @ qrCodeData"

text \<open>What \<^verbatim>\<open>verifyPrescriptionQR\<close> answers for the prescription row it read, given
  the item table.\<close>

definition redeem_answer :: "timestamp \<Rightarrow> prescription \<Rightarrow> prescription_item list \<Rightarrow> verification" where
  "redeem_answer now p items =
     (if qr_enabled p = False then Invalid ''pdf_downloaded''
      else if now > expires_at p then Invalid ''expired''
      else if rx_status p = Rx_fulfilled then Invalid ''already_used''
      else Valid \<lparr>pv_id = rx_id p,
                  pv_medications = map view_of_item (filter (\<lambda>i. it_prescription_id i = rx_id p) items),
                  prescribing_doctor = ''Dr. '' @ take 8 (prescribing_provider_id p),
                  issue_date = rx_created_at p\<rparr>)"

text \<open>For the examples: another provider id with the same first eight characters, the
  view of the example prescription, and a patient row with the same id and other
  contact data.\<close>

definition example_other_provider :: "uuid \<Rightarrow> uuid" where
  "example_other_provider x = (if length x < 8 then x else take 8 x @ ''-9999-4999-8999-999999999999'')"

definition example_view :: prescription_view where
  "example_view =
     \<lparr>pv_id = ''rx-1'',
      pv_medications =
        [\<lparr>mv_drug_name = ''Amoxicillin'', mv_strength = Some ''500mg'',
          mv_form = Some ''capsule'', mv_quantity = Some ''21'',
          mv_instructions = Some ''One capsule three times a day''\<rparr>],
      prescribing_doctor = ''Dr. 0a1b2c3d'', issue_date = 0\<rparr>"

definition other_patient :: user where
  "other_patient =
     \<lparr>u_id = ''u-patient-1'', phone_number = ''+254799999999'', phone_verified_at = None,
      full_name = Some ''Someone Else'', role = Patient\<rparr>"

text \<open>
  \<open>n\<close> calls of \<^verbatim>\<open>extendConsultation\<close> for the same consultation, one after the
  other.
\<close>

definition extend_times :: "nat \<Rightarrow> uuid \<Rightarrow> string \<Rightarrow> db \<Rightarrow> db" where
  "extend_times n consultationId reason s =
     ((\<lambda>s. snd (extendConsultation consultationId reason s)) ^^ n) s"

text \<open>The example consultation, extended once already, with a cap ten minutes short
  of what its column can hold.\<close>

definition full_cap_consultation :: consultation where
  "full_cap_consultation =
     (example_consultation Extended (Some ''0a1b2c3d-1111-4222-8333-444455556666''))
       \<lparr>capacity_cap_minutes := 2147483640, referral_extension_applied := True\<rparr>"

definition full_cap_db :: db where
  "full_cap_db =
     (clinic_db Extended (Some ''0a1b2c3d-1111-4222-8333-444455556666'') 2)
       \<lparr>consultations := [full_cap_consultation]\<rparr>"

text \<open>Stand-ins for the notification service, which delivers, and for
  \<^verbatim>\<open>encodeURIComponent\<close>, which escapes the spaces.\<close>

definition example_notify :: "uuid option \<Rightarrow> string \<Rightarrow> string \<Rightarrow> string \<Rightarrow> error option" where
  "example_notify recipient title body channel = None"

definition example_encode :: "string \<Rightarrow> string" where
  "example_encode text = concat (map (\<lambda>c. if c = CHR '' '' then ''%20'' else [c]) text)"

section \<open>Properties of the authentication service\<close>



lemma filter_singleton:
  assumes "length (filter P xs) \<le> 1" and "r \<in> set xs" and "P r"
  shows "filter P xs = [r]"
proof (cases "filter P xs")
  case Nil
  with assms show ?thesis by (auto simp: filter_empty_conv)
next
  case (Cons y ys)
  with assms(1) have ys: "ys = []" by simp
  from assms(2,3) have "r \<in> set (filter P xs)" by simp
  with Cons ys show ?thesis by simp
qed













lemma existing_pending_below_cap:
  assumes uniq: "pending_count phoneNumber s \<le> 1"
    and r: "r \<in> set (wa_auth_codes s)" "is_pending_for phoneNumber r" "attempts r < 5"
  shows "\<not> (filter (\<lambda>r. is_pending_for phoneNumber r \<and> ttl_expires_at r > now) (wa_auth_codes s) \<noteq> []
            \<and> attempts (hd (filter (\<lambda>r. is_pending_for phoneNumber r \<and> ttl_expires_at r > now)
                               (wa_auth_codes s))) \<ge> 5)"
proof -
  from uniq r(1,2) have one: "filter (is_pending_for phoneNumber) (wa_auth_codes s) = [r]"
    unfolding pending_count_def by (rule filter_singleton)
  have "filter (\<lambda>r. is_pending_for phoneNumber r \<and> ttl_expires_at r > now) (wa_auth_codes s)
        = filter (\<lambda>r. ttl_expires_at r > now) (filter (is_pending_for phoneNumber) (wa_auth_codes s))"
    by (simp add: conj_commute)
  with one have "filter (\<lambda>r. is_pending_for phoneNumber r \<and> ttl_expires_at r > now) (wa_auth_codes s)
        = filter (\<lambda>r. ttl_expires_at r > now) [r]"
    by simp
  with r(3) show ?thesis by (cases "ttl_expires_at r > now") simp_all
qed

lemma filter_map_if:
  "(\<And>x. P (g x) = P x) \<Longrightarrow>
   filter P (map (\<lambda>x. if P x then g x else x) xs) = map g (filter P xs)"
  by (induction xs) auto

text \<open>
  With the index the upsert names. A phone number has one pending code, with fewer than
  five failed attempts, and the gateway delivers the message. Then \<^verbatim>\<open>requestOTP\<close>
  succeeds, and it rewrites that record in place: new hash, expiry five minutes after
  the request, attempt counter 0. The record is afterwards the only pending code of the
  number.
\<close>

lemma requestOTP_with_index_resets:
  assumes uniq: "pending_count phoneNumber s \<le> 1"
    and r: "r \<in> set (wa_auth_codes s)" "is_pending_for phoneNumber r" "attempts r < 5"
    and sent: "post phoneNumber otp = Some messageId"
  shows "requestOTP True post otp otpHash new_id now phoneNumber s =
           (Inr (),
            s\<lparr>wa_auth_codes :=
                 map (\<lambda>x. if is_pending_for phoneNumber x
                          then x\<lparr>code_hash := otpHash, ttl_expires_at := now + 5 * 60 * 1000,
                                 attempts := 0, wa_message_id := Some messageId\<rparr>
                          else x) (wa_auth_codes s)\<rparr>)
       \<and> filter (is_pending_for phoneNumber)
            (wa_auth_codes (snd (requestOTP True post otp otpHash new_id now phoneNumber s))) =
           [r\<lparr>code_hash := otpHash, ttl_expires_at := now + 5 * 60 * 1000, attempts := 0,
              wa_message_id := Some messageId\<rparr>]"
proof -
  let ?g = "\<lambda>x. x\<lparr>code_hash := otpHash, ttl_expires_at := now + 300000,
                    attempts := 0, wa_message_id := Some messageId\<rparr>"
  let ?rows = "map (\<lambda>x. if is_pending_for phoneNumber x then ?g x else x) (wa_auth_codes s)"
  from r(1,2) have ex: "list_ex (is_pending_for phoneNumber) (wa_auth_codes s)"
    by (auto simp: list_ex_iff)
  have m: "map (\<lambda>r. if is_pending_for phoneNumber r then r\<lparr>wa_message_id := Some messageId\<rparr> else r)
             (map (\<lambda>r. if is_pending_for phoneNumber r
                       then r\<lparr>code_hash := otpHash, ttl_expires_at := now + 300000, attempts := 0\<rparr>
                       else r) (wa_auth_codes s))
           = ?rows"
    by (simp add: is_pending_for_def)
  from existing_pending_below_cap [OF uniq r, of now] sent ex m
  have call: "requestOTP True post otp otpHash new_id now phoneNumber s =
           (Inr (), s\<lparr>wa_auth_codes := ?rows\<rparr>)"
    by (simp add: requestOTP_def Let_def sendOTP_def upsert_pending_def)
  from uniq r(1,2) have one: "filter (is_pending_for phoneNumber) (wa_auth_codes s) = [r]"
    unfolding pending_count_def by (rule filter_singleton)
  have "filter (is_pending_for phoneNumber) ?rows = map ?g (filter (is_pending_for phoneNumber) (wa_auth_codes s))"
    by (rule filter_map_if) (simp add: is_pending_for_def)
  with one have pend: "filter (is_pending_for phoneNumber) ?rows = [?g r]"
    by simp
  from call pend show ?thesis by simp
qed

text \<open>
  Without that index the call writes nothing, whatever the state and the arguments: it
  returns the 429 of the cap or the error the database raises for the conflict target.
\<close>

lemma requestOTP_without_index_writes_nothing:
  "snd (requestOTP False post otp otpHash new_id now phoneNumber s) = s
   \<and> fst (requestOTP False post otp otpHash new_id now phoneNumber s) \<noteq> Inr ()"
  by (simp add: requestOTP_def Let_def)


text \<open>
  \<^verbatim>\<open>verifyOTP\<close> has no outcome with status 429, and it accepts the matching code of
  an unexpired record whatever the attempt counter holds.
\<close>

lemma verifyOTP_never_too_many_attempts:
  "fst (verifyOTP compare sign new_user_id session now phoneNumber code s) \<noteq> Inl (AppError msg 429)"
  by (simp add: verifyOTP_def Let_def split: list.split prod.split)

lemma verifyOTP_accepts_at_any_attempt_count:
  assumes "filter (is_pending_for phoneNumber) (wa_auth_codes s) = otpRecord # rest"
    and "now \<le> ttl_expires_at otpRecord" and "compare code (code_hash otpRecord)"
  shows "\<exists>token usr. fst (verifyOTP compare sign new_user_id session now phoneNumber code s) = Inr (token, usr)"
  using assms by (simp add: verifyOTP_def Let_def split: list.split prod.split)

text \<open>
  C3. The pending code of \<^verbatim>\<open>+254700000001\<close> has five failed attempts and expires at
  300000; the time is 1000. \<^verbatim>\<open>requestOTP\<close> refuses a new code for the number with
  status 429. \<^verbatim>\<open>verifyOTP\<close> does not read the counter: the matching code is accepted
  and returns a token and the new user, and a wrong code is answered
  \<^verbatim>\<open>Invalid OTP\<close> (401) and counted as a sixth attempt.
\<close>

theorem verifyOTP_ignores_attempt_cap:
  "attempts (pending_code 5) = 5 \<and> 1000 < ttl_expires_at (pending_code 5)
   \<and> fst (requestOTP True example_post ''654321'' ''bcrypt:654321'' ''otp-2'' 1000 ''+254700000001''
            (auth_db 5)) =
       Inl (AppError ''Too many OTP attempts. Please try again later.'' 429)
   \<and> fst (verifyOTP example_compare example_sign ''u-1'' ''sess-1'' 1000 ''+254700000001'' ''123456''
            (auth_db 5)) =
       Inr (''jwt:u-1:sess-1'',
            \<lparr>u_id = ''u-1'', phone_number = ''+254700000001'', phone_verified_at = Some 1000,
             full_name = None, role = Patient\<rparr>)
   \<and> map otp_status (wa_auth_codes
         (snd (verifyOTP example_compare example_sign ''u-1'' ''sess-1'' 1000 ''+254700000001''
                 ''123456'' (auth_db 5)))) = [Verified]
   \<and> fst (verifyOTP example_compare example_sign ''u-1'' ''sess-1'' 1000 ''+254700000001'' ''000000''
            (auth_db 5)) =
       Inl (AppError ''Invalid OTP'' 401)
   \<and> map attempts (wa_auth_codes
         (snd (verifyOTP example_compare example_sign ''u-1'' ''sess-1'' 1000 ''+254700000001''
                 ''000000'' (auth_db 5)))) = [6]"
  by (simp add: verifyOTP_def requestOTP_def Let_def auth_db_def empty_db_def pending_code_def
      is_pending_for_def example_compare_def example_sign_def)

section \<open>Properties of the prescription service\<close>

lemma two_claims_db_eq:
  "two_claims_db = (rx_db True Rx_active)\<lparr>pharmacy_claims :=
      [\<lparr>cl_prescription_id = ''rx-1'', cl_pharmacy_id = ''ph-1'', cl_status = Ready,
        dispensed_items = None, cl_created_at = 1000\<rparr>,
       \<lparr>cl_prescription_id = ''rx-1'', cl_pharmacy_id = ''ph-2'', cl_status = Ready,
        dispensed_items = None, cl_created_at = 2000\<rparr>]\<rparr>"
  by (simp add: two_claims_db_def verifyPrescriptionQR_def prescriptions_by_qr_def rx_db_def
      clinic_db_def empty_db_def example_prescription_def example_patient_def example_doctor_def Let_def)

text \<open>
  C1 fails as stated. Two pharmacies have a \<^verbatim>\<open>ready\<close> claim on the same
  prescription. The first fulfils it; the second call for the same prescription id
  does not fail: it returns normally, dispenses a second claim and replaces the
  fulfilling pharmacy.
\<close>

theorem fulfill_twice_counterexample:
  "fst (fulfillPrescription 3000 ''rx-1'' ''ph-1'' [''Amoxicillin''] two_claims_db) = Inr ()
   \<and> fst (fulfillPrescription 4000 ''rx-1'' ''ph-2'' [''Amoxicillin'']
            (snd (fulfillPrescription 3000 ''rx-1'' ''ph-1'' [''Amoxicillin''] two_claims_db))) = Inr ()
   \<and> map cl_status (pharmacy_claims
            (snd (fulfillPrescription 3000 ''rx-1'' ''ph-1'' [''Amoxicillin''] two_claims_db)))
        = [Dispensed, Ready]
   \<and> map cl_status (pharmacy_claims
        (snd (fulfillPrescription 4000 ''rx-1'' ''ph-2'' [''Amoxicillin'']
            (snd (fulfillPrescription 3000 ''rx-1'' ''ph-1'' [''Amoxicillin''] two_claims_db)))))
        = [Dispensed, Dispensed]
   \<and> map fulfilling_pharmacy_id (prescriptions
        (snd (fulfillPrescription 4000 ''rx-1'' ''ph-2'' [''Amoxicillin'']
            (snd (fulfillPrescription 3000 ''rx-1'' ''ph-1'' [''Amoxicillin''] two_claims_db)))))
        = [Some ''ph-2'']"
  by (simp add: two_claims_db_eq fulfillPrescription_def transaction_def rx_db_def
      clinic_db_def empty_db_def example_prescription_def Let_def)

lemma fulfill_eq:
  "fulfillPrescription now prescriptionId pharmacyId dispensedItems s =
    (Inr (),
     s\<lparr>pharmacy_claims :=
          map (\<lambda>c. if cl_prescription_id c = prescriptionId \<and> cl_pharmacy_id c = pharmacyId
                   then c\<lparr>cl_status := Dispensed, dispensed_items := Some dispensedItems,
                          cl_created_at := now\<rparr>
                   else c) (pharmacy_claims s),
        prescriptions :=
          map (\<lambda>p. if rx_id p = prescriptionId
                   then p\<lparr>rx_status := Rx_fulfilled, fulfilled_at := Some now,
                          fulfilling_pharmacy_id := Some pharmacyId\<rparr>
                   else p) (prescriptions s),
        audit_events := audit_events s @
          [\<lparr>a_user_id = None, event_type = ''prescription.fulfilled'',
            resource_type = ''prescription'', resource_id = prescriptionId,
            event_data = ''{pharmacy_id: '' @ pharmacyId @ ''}''\<rparr>]\<rparr>)"
  by (simp add: fulfillPrescription_def transaction_def Let_def)

lemma fulfill_fst:
  "fst (fulfillPrescription now prescriptionId pharmacyId dispensedItems s) = Inr ()"
  by (simp add: fulfill_eq)

lemma fulfill_prescriptions:
  "prescriptions (snd (fulfillPrescription now prescriptionId pharmacyId dispensedItems s)) =
     map (\<lambda>p. if rx_id p = prescriptionId
              then p\<lparr>rx_status := Rx_fulfilled, fulfilled_at := Some now,
                     fulfilling_pharmacy_id := Some pharmacyId\<rparr>
              else p) (prescriptions s)"
  by (simp add: fulfill_eq)

lemma fulfill_claims:
  "pharmacy_claims (snd (fulfillPrescription now prescriptionId pharmacyId dispensedItems s)) =
     map (\<lambda>c. if cl_prescription_id c = prescriptionId \<and> cl_pharmacy_id c = pharmacyId
              then c\<lparr>cl_status := Dispensed, dispensed_items := Some dispensedItems,
                     cl_created_at := now\<rparr>
              else c) (pharmacy_claims s)"
  by (simp add: fulfill_eq)

lemma fulfill_marks_prescription:
  assumes "p \<in> set (prescriptions (snd (fulfillPrescription now prescriptionId pharmacyId dispensedItems s)))"
    and "rx_id p = prescriptionId"
  shows "rx_status p = Rx_fulfilled"
proof -
  from assms(1) obtain q where
    q: "p = (if rx_id q = prescriptionId
             then q\<lparr>rx_status := Rx_fulfilled, fulfilled_at := Some now,
                    fulfilling_pharmacy_id := Some pharmacyId\<rparr>
             else q)"
    unfolding fulfill_prescriptions set_map by (rule imageE)
  show ?thesis
  proof (cases "rx_id q = prescriptionId")
    case True
    with q show ?thesis by simp
  next
    case False
    with q assms(2) show ?thesis by simp
  qed
qed

lemma fulfill_claim_cases:
  assumes "c \<in> set (pharmacy_claims (snd (fulfillPrescription now prescriptionId pharmacyId dispensedItems s)))"
  obtains d where "d \<in> set (pharmacy_claims s)"
    and "cl_prescription_id d = prescriptionId" "cl_pharmacy_id d = pharmacyId"
    and "c = d\<lparr>cl_status := Dispensed, dispensed_items := Some dispensedItems, cl_created_at := now\<rparr>"
  | "c \<in> set (pharmacy_claims s)"
    and "\<not> (cl_prescription_id c = prescriptionId \<and> cl_pharmacy_id c = pharmacyId)"
proof -
  from assms obtain d where d: "d \<in> set (pharmacy_claims s)"
    and c: "c = (if cl_prescription_id d = prescriptionId \<and> cl_pharmacy_id d = pharmacyId
              then d\<lparr>cl_status := Dispensed, dispensed_items := Some dispensedItems,
                     cl_created_at := now\<rparr>
              else d)"
    unfolding fulfill_claims set_map by (rule imageE)
  show thesis
  proof (cases "cl_prescription_id d = prescriptionId \<and> cl_pharmacy_id d = pharmacyId")
    case True
    with d c that(1) show thesis by simp
  next
    case False
    with d c that(2) show thesis by simp
  qed
qed

lemma fulfill_marks_claim:
  assumes "c \<in> set (pharmacy_claims (snd (fulfillPrescription now prescriptionId pharmacyId dispensedItems s)))"
    and "cl_prescription_id c = prescriptionId" "cl_pharmacy_id c = pharmacyId"
  shows "cl_status c = Dispensed"
  using assms(1)
proof (cases rule: fulfill_claim_cases)
  case (1 d)
  then show ?thesis by simp
next
  case 2
  with assms(2,3) show ?thesis by simp
qed

lemma fulfill_keeps_dispensed:
  assumes "c \<in> set (pharmacy_claims (snd (fulfillPrescription now prescriptionId pharmacyId dispensedItems s)))"
    and "\<forall>d \<in> set (pharmacy_claims s).
           cl_prescription_id d = pid \<and> cl_pharmacy_id d = ph \<longrightarrow> cl_status d = Dispensed"
    and "cl_prescription_id c = pid" "cl_pharmacy_id c = ph"
  shows "cl_status c = Dispensed"
  using assms(1)
proof (cases rule: fulfill_claim_cases)
  case (1 d)
  then show ?thesis by simp
next
  case 2
  with assms(2-4) show ?thesis by blast
qed

text \<open>
  C1, as the code has it. \<^verbatim>\<open>fulfillPrescription\<close> never fails: every call returns
  normally, marks the prescription \<^verbatim>\<open>fulfilled\<close> and the calling pharmacy's claims
  on it \<^verbatim>\<open>dispensed\<close>, whatever their status was. So of two calls for the same
  prescription id, by the same or by different pharmacies, both succeed; after the
  second the prescription is \<^verbatim>\<open>fulfilled\<close> and the claims of both pharmacies are
  \<^verbatim>\<open>dispensed\<close>.
\<close>

theorem fulfill_always_succeeds:
  "fst (fulfillPrescription now prescriptionId pharmacyId dispensedItems s) = Inr ()
   \<and> (\<forall>p \<in> set (prescriptions (snd (fulfillPrescription now prescriptionId pharmacyId dispensedItems s))).
         rx_id p = prescriptionId \<longrightarrow> rx_status p = Rx_fulfilled)
   \<and> (\<forall>c \<in> set (pharmacy_claims (snd (fulfillPrescription now prescriptionId pharmacyId dispensedItems s))).
         cl_prescription_id c = prescriptionId \<and> cl_pharmacy_id c = pharmacyId \<longrightarrow> cl_status c = Dispensed)
   \<and> fst (fulfillPrescription now' prescriptionId pharmacyId' dispensedItems'
            (snd (fulfillPrescription now prescriptionId pharmacyId dispensedItems s))) = Inr ()
   \<and> (\<forall>p \<in> set (prescriptions (snd (fulfillPrescription now' prescriptionId pharmacyId' dispensedItems'
            (snd (fulfillPrescription now prescriptionId pharmacyId dispensedItems s))))).
         rx_id p = prescriptionId \<longrightarrow> rx_status p = Rx_fulfilled)
   \<and> (\<forall>c \<in> set (pharmacy_claims (snd (fulfillPrescription now' prescriptionId pharmacyId' dispensedItems'
            (snd (fulfillPrescription now prescriptionId pharmacyId dispensedItems s))))).
         cl_prescription_id c = prescriptionId \<and> (cl_pharmacy_id c = pharmacyId \<or> cl_pharmacy_id c = pharmacyId')
         \<longrightarrow> cl_status c = Dispensed)"
proof -
  let ?s1 = "snd (fulfillPrescription now prescriptionId pharmacyId dispensedItems s)"
  have first: "\<forall>d \<in> set (pharmacy_claims ?s1).
           cl_prescription_id d = prescriptionId \<and> cl_pharmacy_id d = pharmacyId \<longrightarrow> cl_status d = Dispensed"
    by (blast intro: fulfill_marks_claim)
  have both: "cl_status c = Dispensed"
    if "c \<in> set (pharmacy_claims (snd (fulfillPrescription now' prescriptionId pharmacyId' dispensedItems' ?s1)))"
      "cl_prescription_id c = prescriptionId"
      "cl_pharmacy_id c = pharmacyId \<or> cl_pharmacy_id c = pharmacyId'" for c
    using that fulfill_marks_claim fulfill_keeps_dispensed [OF that(1) first] by blast
  show ?thesis
    using first both by (intro conjI ballI impI) (simp_all add: fulfill_fst fulfill_marks_prescription)
qed

theorem fulfill_always_succeeds_witness:
  "map rx_id (prescriptions two_claims_db) = [''rx-1'']
   \<and> map (\<lambda>c. (cl_prescription_id c, cl_pharmacy_id c)) (pharmacy_claims two_claims_db) =
        [(''rx-1'', ''ph-1''), (''rx-1'', ''ph-2'')]
   \<and> fst (fulfillPrescription 3000 ''rx-1'' ''ph-1'' [''Amoxicillin''] two_claims_db) = Inr ()
   \<and> fst (fulfillPrescription 4000 ''rx-1'' ''ph-2'' [''Amoxicillin'']
            (snd (fulfillPrescription 3000 ''rx-1'' ''ph-1'' [''Amoxicillin''] two_claims_db))) = Inr ()
   \<and> map rx_status (prescriptions
        (snd (fulfillPrescription 4000 ''rx-1'' ''ph-2'' [''Amoxicillin'']
            (snd (fulfillPrescription 3000 ''rx-1'' ''ph-1'' [''Amoxicillin''] two_claims_db)))))
        = [Rx_fulfilled]
   \<and> map cl_status (pharmacy_claims
        (snd (fulfillPrescription 4000 ''rx-1'' ''ph-2'' [''Amoxicillin'']
            (snd (fulfillPrescription 3000 ''rx-1'' ''ph-1'' [''Amoxicillin''] two_claims_db)))))
        = [Dispensed, Dispensed]"
  using fulfill_always_succeeds [of 3000 "''rx-1''" "''ph-1''" "[''Amoxicillin'']" two_claims_db
      4000 "''ph-2''" "[''Amoxicillin'']"]
  by (simp add: two_claims_db_eq fulfill_prescriptions fulfill_claims rx_db_def
      clinic_db_def empty_db_def example_prescription_def)

lemma prescriptions_by_qr_fst:
  "set (map fst (prescriptions_by_qr s qrCodeData)) =
     {p \<in> set (prescriptions s). qr_code_data p = qrCodeData \<and>
        (\<exists>u \<in> set (users s). u_id u = rx_patient_id p)}"
  by (auto simp: prescriptions_by_qr_def image_iff)

lemma prescriptions_by_qr_head:
  assumes p: "p \<in> set (prescriptions s)" "qr_code_data p = qrCodeData"
    and uniq: "\<forall>q \<in> set (prescriptions s). qr_code_data q = qrCodeData \<longrightarrow> q = p"
    and patient: "\<exists>u \<in> set (users s). u_id u = rx_patient_id p"
  obtains patient_name rest where "prescriptions_by_qr s qrCodeData = (p, patient_name) # rest"
proof (cases "prescriptions_by_qr s qrCodeData")
  case Nil
  from p patient have "p \<in> set (map fst (prescriptions_by_qr s qrCodeData))"
    unfolding prescriptions_by_qr_fst by simp
  with Nil show thesis by simp
next
  case (Cons row rest)
  then have "fst row \<in> set (map fst (prescriptions_by_qr s qrCodeData))" by simp
  then have "fst row \<in> set (prescriptions s)" "qr_code_data (fst row) = qrCodeData"
    unfolding prescriptions_by_qr_fst by simp_all
  with uniq have "fst row = p" by blast
  with Cons that [of "snd row" rest] show thesis by (cases row) simp
qed

lemma download_prescriptions:
  assumes "fst (downloadPrescriptionPDF generatePrescriptionPDF upload now prescriptionId patientId s) = Inr doc"
  shows "prescriptions (snd (downloadPrescriptionPDF generatePrescriptionPDF upload now prescriptionId patientId s)) =
           map (\<lambda>p. if rx_id p = prescriptionId
                    then p\<lparr>qr_enabled := False, pdf_url := Some (fst doc),
                           pdf_downloaded_at := Some now\<rparr>
                    else p) (prescriptions s)"
proof (cases "prescription_of_patient s prescriptionId patientId")
  case Nil
  with assms show ?thesis by (simp add: downloadPrescriptionPDF_def transaction_def)
next
  case (Cons row rest)
  obtain prescription u pr where row: "row = (prescription, u, pr)" by (cases row)
  let ?doctor = "case provider_details s (prescribing_provider_id prescription) of
                   [] \<Rightarrow> None | d # _ \<Rightarrow> Some d"
  let ?items = "filter (\<lambda>i. it_prescription_id i = prescriptionId) (prescription_items s)"
  show ?thesis
  proof (cases "generatePrescriptionPDF prescription ?doctor ?items")
    case (Inl e)
    with assms Cons row show ?thesis
      by (simp add: downloadPrescriptionPDF_def transaction_def)
  next
    case (Inr pdfBuffer)
    note pdf = this
    show ?thesis
    proof (cases "upload pdfBuffer (''prescriptions/'' @ prescriptionId @ ''.pdf'') ''application/pdf''")
      case (Inl e)
      with assms Cons row pdf show ?thesis
        by (simp add: downloadPrescriptionPDF_def transaction_def)
    next
      case (Inr pdfUrl)
      with assms Cons row pdf show ?thesis
        by (auto simp: downloadPrescriptionPDF_def transaction_def Let_def)
    qed
  qed
qed

text \<open>
  C7, as the code has it. A prescription whose \<^verbatim>\<open>qr_enabled\<close> flag is false, in a
  table where redemption tokens are unique and the patient's row exists (the schema's
  \<^verbatim>\<open>UNIQUE\<close> and foreign key): \<^verbatim>\<open>verifyPrescriptionQR\<close> with its token returns
  the reason \<^verbatim>\<open>pdf_downloaded\<close> and leaves the state as it was, so no claim is
  created and every later scan is answered the same. The flag is cleared by a
  successful \<^verbatim>\<open>downloadPrescriptionPDF\<close>, for every prescription of that id.
\<close>

theorem redeem_disabled_token:
  assumes p: "p \<in> set (prescriptions s)" "qr_code_data p = qrCodeData"
    and uniq: "\<forall>q \<in> set (prescriptions s). qr_code_data q = qrCodeData \<longrightarrow> q = p"
    and patient: "\<exists>u \<in> set (users s). u_id u = rx_patient_id p"
    and disabled: "qr_enabled p = False"
  shows "verifyPrescriptionQR now qrCodeData pharmacyId s = (Invalid ''pdf_downloaded'', s)
       \<and> (fst (downloadPrescriptionPDF generatePrescriptionPDF upload now' prescriptionId patientId s') = Inr doc
            \<longrightarrow> (\<forall>q \<in> set (prescriptions
                    (snd (downloadPrescriptionPDF generatePrescriptionPDF upload now' prescriptionId
                            patientId s'))).
                   rx_id q = prescriptionId \<longrightarrow> qr_enabled q = False))"
proof -
  from p uniq patient obtain patient_name rest
    where "prescriptions_by_qr s qrCodeData = (p, patient_name) # rest"
    by (rule prescriptions_by_qr_head)
  with disabled have A: "verifyPrescriptionQR now qrCodeData pharmacyId s = (Invalid ''pdf_downloaded'', s)"
    by (simp add: verifyPrescriptionQR_def)
  have B: "qr_enabled q = False"
    if ok: "fst (downloadPrescriptionPDF generatePrescriptionPDF upload now' prescriptionId patientId s') = Inr doc"
      and q: "q \<in> set (prescriptions
                    (snd (downloadPrescriptionPDF generatePrescriptionPDF upload now' prescriptionId
                            patientId s')))" "rx_id q = prescriptionId" for q
  proof -
    from q(1) obtain q0 where
      q0: "q = (if rx_id q0 = prescriptionId
                then q0\<lparr>qr_enabled := False, pdf_url := Some (fst doc), pdf_downloaded_at := Some now'\<rparr>
                else q0)"
      unfolding download_prescriptions [OF ok] set_map by (rule imageE)
    show ?thesis
    proof (cases "rx_id q0 = prescriptionId")
      case True
      with q0 show ?thesis by simp
    next
      case False
      with q0 q(2) show ?thesis by simp
    qed
  qed
  from A B show ?thesis by blast
qed

lemma rx_db_by_qr:
  "prescriptions_by_qr (rx_db enabled st) ''T'' = [(example_prescription enabled st, Some ''Jane Patient'')]"
  by (simp add: prescriptions_by_qr_def rx_db_def clinic_db_def empty_db_def
      example_prescription_def example_patient_def example_doctor_def)

text \<open>
  C7 fails as stated. For the disabled example prescription the reason returned is
  \<^verbatim>\<open>pdf_downloaded\<close>, which is not \<^verbatim>\<open>disabled\<close>. And a successful dispense does
  not clear the flag: after \<^verbatim>\<open>fulfillPrescription\<close> it is still true, and a scan is
  refused with \<^verbatim>\<open>already_used\<close>.
\<close>

theorem redeem_disabled_token_counterexample:
  "qr_enabled (example_prescription False Rx_active) = False
   \<and> fst (verifyPrescriptionQR 1000 ''T'' ''ph-1'' (rx_db False Rx_active)) = Invalid ''pdf_downloaded''
   \<and> fst (verifyPrescriptionQR 1000 ''T'' ''ph-1'' (rx_db False Rx_active)) \<noteq> Invalid ''disabled''
   \<and> map qr_enabled (prescriptions
        (snd (fulfillPrescription 3000 ''rx-1'' ''ph-1'' [''Amoxicillin''] two_claims_db))) = [True]
   \<and> fst (verifyPrescriptionQR 4000 ''T'' ''ph-2''
        (snd (fulfillPrescription 3000 ''rx-1'' ''ph-1'' [''Amoxicillin''] two_claims_db))) =
       Invalid ''already_used''"
proof -
  have a: "fst (verifyPrescriptionQR 1000 ''T'' ''ph-1'' (rx_db False Rx_active)) = Invalid ''pdf_downloaded''"
    by (simp add: verifyPrescriptionQR_def rx_db_by_qr example_prescription_def)
  have b: "map qr_enabled (prescriptions
        (snd (fulfillPrescription 3000 ''rx-1'' ''ph-1'' [''Amoxicillin''] two_claims_db))) = [True]"
    by (simp add: fulfill_prescriptions two_claims_db_eq rx_db_def example_prescription_def)
  have c: "prescriptions_by_qr (snd (fulfillPrescription 3000 ''rx-1'' ''ph-1'' [''Amoxicillin''] two_claims_db)) ''T''
       = [((example_prescription True Rx_active)\<lparr>rx_status := Rx_fulfilled, fulfilled_at := Some 3000,
             fulfilling_pharmacy_id := Some ''ph-1''\<rparr>, Some ''Jane Patient'')]"
    by (simp add: prescriptions_by_qr_def fulfill_eq two_claims_db_eq rx_db_def clinic_db_def empty_db_def
      example_prescription_def example_patient_def example_doctor_def)
  have d: "fst (verifyPrescriptionQR 4000 ''T'' ''ph-2''
        (snd (fulfillPrescription 3000 ''rx-1'' ''ph-1'' [''Amoxicillin''] two_claims_db))) =
       Invalid ''already_used''"
    by (simp add: verifyPrescriptionQR_def c example_prescription_def)
  from a b d show ?thesis by (simp add: example_prescription_def)
qed

theorem redeem_disabled_token_witness:
  "example_prescription False Rx_active \<in> set (prescriptions (rx_db False Rx_active))
   \<and> qr_code_data (example_prescription False Rx_active) = ''T''
   \<and> example_patient \<in> set (users (rx_db False Rx_active))
   \<and> u_id example_patient = rx_patient_id (example_prescription False Rx_active)
   \<and> qr_enabled (example_prescription False Rx_active) = False
   \<and> verifyPrescriptionQR 1000 ''T'' ''ph-1'' (rx_db False Rx_active) =
        (Invalid ''pdf_downloaded'', rx_db False Rx_active)
   \<and> fst (downloadPrescriptionPDF example_pdf example_upload 500 ''rx-1'' ''u-patient-1''
            (rx_db True Rx_active)) =
        Inr (''https://store.example/prescriptions/rx-1.pdf'', ''%PDF rx-1'')
   \<and> map (\<lambda>q. (rx_id q, qr_enabled q))
        (prescriptions (snd (downloadPrescriptionPDF example_pdf example_upload 500 ''rx-1''
                               ''u-patient-1'' (rx_db True Rx_active)))) = [(''rx-1'', False)]"
proof -
  have h: "example_prescription False Rx_active \<in> set (prescriptions (rx_db False Rx_active))"
    "qr_code_data (example_prescription False Rx_active) = ''T''"
    "\<forall>q \<in> set (prescriptions (rx_db False Rx_active)).
        qr_code_data q = ''T'' \<longrightarrow> q = example_prescription False Rx_active"
    "example_patient \<in> set (users (rx_db False Rx_active))"
    "u_id example_patient = rx_patient_id (example_prescription False Rx_active)"
    "qr_enabled (example_prescription False Rx_active) = False"
    by (simp_all add: rx_db_def clinic_db_def empty_db_def example_prescription_def example_patient_def)
  from h(4,5) have ex: "\<exists>u \<in> set (users (rx_db False Rx_active)).
      u_id u = rx_patient_id (example_prescription False Rx_active)"
    by blast
  have dl: "fst (downloadPrescriptionPDF example_pdf example_upload 500 ''rx-1'' ''u-patient-1''
            (rx_db True Rx_active)) =
        Inr (''https://store.example/prescriptions/rx-1.pdf'', ''%PDF rx-1'')"
    by (simp add: downloadPrescriptionPDF_def transaction_def Let_def prescription_of_patient_def
        provider_details_def rx_db_def clinic_db_def
        empty_db_def example_prescription_def example_patient_def example_doctor_def example_gp_def
        example_pdf_def example_upload_def)
  have ids: "map rx_id (prescriptions (snd (downloadPrescriptionPDF example_pdf example_upload 500 ''rx-1''
                               ''u-patient-1'' (rx_db True Rx_active)))) = [''rx-1'']"
    unfolding download_prescriptions [OF dl] by (simp add: rx_db_def example_prescription_def)
  note t = redeem_disabled_token [OF h(1,2,3) ex h(6), where now = 1000 and pharmacyId = "''ph-1''"
      and generatePrescriptionPDF = example_pdf and upload = example_upload and now' = 500
      and prescriptionId = "''rx-1''" and patientId = "''u-patient-1''" and s' = "rx_db True Rx_active"
      and doc = "(''https://store.example/prescriptions/rx-1.pdf'', ''%PDF rx-1'')"]
  from t dl have "\<forall>q \<in> set (prescriptions (snd (downloadPrescriptionPDF example_pdf example_upload 500 ''rx-1''
                               ''u-patient-1'' (rx_db True Rx_active)))). rx_id q = ''rx-1'' \<longrightarrow> qr_enabled q = False"
    by blast
  with ids have "map (\<lambda>q. (rx_id q, qr_enabled q))
        (prescriptions (snd (downloadPrescriptionPDF example_pdf example_upload 500 ''rx-1''
                               ''u-patient-1'' (rx_db True Rx_active)))) = [(''rx-1'', False)]"
    by (cases "prescriptions (snd (downloadPrescriptionPDF example_pdf example_upload 500 ''rx-1''
                               ''u-patient-1'' (rx_db True Rx_active)))") auto
  with t h dl show ?thesis by blast
qed

lemma transaction_rolls_back:
  "isl (fst (transaction callback s)) \<Longrightarrow> snd (transaction callback s) = s"
  by (cases "callback s") (auto simp: transaction_def split: sum.splits)

lemma insert_items_all:
  "map (item_of_medication prescriptionId) items = map Some new \<Longrightarrow>
   insert_items prescriptionId items rows = Some (rows @ new)"
proof (induction items arbitrary: rows new)
  case Nil
  then show ?case by simp
next
  case (Cons item items)
  then obtain row new' where new: "new = row # new'"
    "item_of_medication prescriptionId item = Some row"
    "map (item_of_medication prescriptionId) items = map Some new'"
    by (cases new) auto
  from Cons.IH [OF new(3), of "rows @ [row]"] new(1,2) show ?case by simp
qed

lemma createPrescription_absent:
  assumes "filter (\<lambda>c. c_id c = consultationId) (consultations s) = []"
  shows "createPrescription toDataURL in_thirty_days new_id qrCodeData now consultationId providerId
           prescriptionData s =
           (Inl (AppError ''Consultation not found'' 404), s)"
  using assms by (simp add: createPrescription_def transaction_def)

lemma createPrescription_not_404:
  assumes "filter (\<lambda>c. c_id c = consultationId) (consultations s) = consultation # rest"
  shows "fst (createPrescription toDataURL in_thirty_days new_id qrCodeData now consultationId
                providerId prescriptionData s) \<noteq> Inl (AppError ''Consultation not found'' 404)"
  using assms
  by (simp add: createPrescription_def transaction_def Let_def split: option.split)

lemma createPrescription_present:
  assumes found: "filter (\<lambda>c. c_id c = consultationId) (consultations s) = consultation # rest"
    and qr: "varchar 255 qrCodeData = Some stored_qr"
    and ok: "prescription_insertable s
               (issued_prescription new_id stored_qr now (in_thirty_days now) consultationId providerId
                  (c_patient_id consultation) prescriptionData)"
    and items: "map (item_of_medication new_id) prescriptionData = map Some rows"
  shows "createPrescription toDataURL in_thirty_days new_id qrCodeData now consultationId providerId
           prescriptionData s =
         (Inr (issued_prescription new_id stored_qr now (in_thirty_days now) consultationId providerId
                 (c_patient_id consultation) prescriptionData, toDataURL qrCodeData),
          s\<lparr>prescriptions := prescriptions s @
                 [issued_prescription new_id stored_qr now (in_thirty_days now) consultationId
                    providerId (c_patient_id consultation) prescriptionData],
             prescription_items := prescription_items s @ rows,
             audit_events := audit_events s @
               [\<lparr>a_user_id = Some (c_patient_id consultation),
                 event_type = ''prescription.created'', resource_type = ''prescription'',
                 resource_id = new_id,
                 event_data = ''{provider_id: '' @ providerId @ ''}''\<rparr>]\<rparr>)"
proof -
  have ins: "insert_items new_id prescriptionData (prescription_items s) = Some (prescription_items s @ rows)"
    using items by (rule insert_items_all)
  from ok have ok': "prescription_insertable s
      \<lparr>rx_id = new_id, rx_consultation_id = consultationId,
       prescribing_provider_id = providerId, rx_patient_id = c_patient_id consultation,
       prescription_data = prescriptionData, qr_code_data = stored_qr,
       qr_enabled = True, pdf_url = None, pdf_downloaded_at = None,
       rx_status = Rx_active, fulfilled_at = None, fulfilling_pharmacy_id = None,
       expires_at = in_thirty_days now, rx_created_at = now\<rparr>"
    by (simp add: issued_prescription_def)
  show ?thesis
    using found qr ok' ins
    by (simp add: createPrescription_def transaction_def Let_def issued_prescription_def)
qed

lemma example_medication_row:
  "map (item_of_medication ''rx-9'') [example_medication] =
     map Some [example_item\<lparr>it_prescription_id := ''rx-9''\<rparr>]"
  by (simp add: item_of_medication_def example_medication_def example_item_def varchar_def
      varchar_null_def)

lemma clinic_db_facts:
  "filter (\<lambda>c. c_id c = ''e-1'') (consultations (clinic_db st gp 2)) = [example_consultation st gp]"
  "consultations (clinic_db st gp 2) = [example_consultation st gp]"
  "c_id (example_consultation st gp) = ''e-1''"
  "c_status (example_consultation st gp) = st"
  "c_patient_id (example_consultation st gp) = ''u-patient-1''"
  "map rx_id (prescriptions (clinic_db st gp 2)) = []"
  "map qr_code_data (prescriptions (clinic_db st gp 2)) = []"
  "prescriptions (clinic_db st gp 2) = []"
  "prescription_items (clinic_db st gp 2) = []"
  "map p_id (providers (clinic_db st gp 2)) = [''0a1b2c3d-1111-4222-8333-444455556666'']"
  "map u_id (users (clinic_db st gp 2)) = [''u-patient-1'', ''u-doctor-1'']"
  by (simp_all add: clinic_db_def empty_db_def example_consultation_def example_gp_def
      example_patient_def example_doctor_def)

lemma varchar_T9: "varchar 255 ''T9'' = Some ''T9''"
  by (simp add: varchar_def)

text \<open>
  C8, as the code has it. \<^verbatim>\<open>createPrescription\<close> fails with
  \<^verbatim>\<open>Consultation not found\<close> (404) when no consultation has the id. Whenever it
  fails, for this reason or because the database rejects an insert, it leaves the state
  as it was. When a consultation has the id, whatever its status, the call does not fail
  with 404; and when the database accepts the inserts (the generated id and the stored
  token are new, the provider and the patient exist, every medication has a name, and
  its name, strength, form and quantity fit their columns) the call succeeds: it returns
  the new prescription, which expires thirty calendar days later, and has appended it
  and one item row for each medication.
\<close>

theorem createPrescription_status_blind:
  "((\<forall>c \<in> set (consultations s). c_id c \<noteq> consultationId) \<longrightarrow>
      createPrescription toDataURL in_thirty_days new_id qrCodeData now consultationId providerId
        prescriptionData s =
        (Inl (AppError ''Consultation not found'' 404), s))
   \<and> (isl (fst (createPrescription toDataURL in_thirty_days new_id qrCodeData now consultationId
                   providerId prescriptionData s)) \<longrightarrow>
        snd (createPrescription toDataURL in_thirty_days new_id qrCodeData now consultationId
               providerId prescriptionData s) = s)
   \<and> (c \<in> set (consultations s) \<and> c_id c = consultationId \<longrightarrow>
        fst (createPrescription toDataURL in_thirty_days new_id qrCodeData now consultationId
               providerId prescriptionData s) \<noteq> Inl (AppError ''Consultation not found'' 404))
   \<and> (c \<in> set (consultations s) \<and> c_id c = consultationId \<and>
        (\<forall>c' \<in> set (consultations s). c_id c' = consultationId \<longrightarrow> c' = c) \<and>
        varchar 255 qrCodeData = Some stored_qr \<and>
        new_id \<notin> set (map rx_id (prescriptions s)) \<and>
        stored_qr \<notin> set (map qr_code_data (prescriptions s)) \<and>
        providerId \<in> set (map p_id (providers s)) \<and>
        c_patient_id c \<in> set (map u_id (users s)) \<and>
        map (item_of_medication new_id) prescriptionData = map Some rows \<longrightarrow>
        fst (createPrescription toDataURL in_thirty_days new_id qrCodeData now consultationId
               providerId prescriptionData s) =
          Inr (issued_prescription new_id stored_qr now (in_thirty_days now) consultationId
                 providerId (c_patient_id c) prescriptionData, toDataURL qrCodeData)
        \<and> prescriptions (snd (createPrescription toDataURL in_thirty_days new_id qrCodeData now
                                consultationId providerId prescriptionData s)) =
            prescriptions s @
              [issued_prescription new_id stored_qr now (in_thirty_days now) consultationId
                 providerId (c_patient_id c) prescriptionData]
        \<and> prescription_items (snd (createPrescription toDataURL in_thirty_days new_id qrCodeData
                                     now consultationId providerId prescriptionData s)) =
            prescription_items s @ rows)"
proof (intro conjI impI)
  assume "\<forall>c \<in> set (consultations s). c_id c \<noteq> consultationId"
  then have "filter (\<lambda>c. c_id c = consultationId) (consultations s) = []"
    by (simp add: filter_empty_conv)
  then show "createPrescription toDataURL in_thirty_days new_id qrCodeData now consultationId providerId
        prescriptionData s = (Inl (AppError ''Consultation not found'' 404), s)"
    by (rule createPrescription_absent)
next
  assume "isl (fst (createPrescription toDataURL in_thirty_days new_id qrCodeData now consultationId
                   providerId prescriptionData s))"
  then show "snd (createPrescription toDataURL in_thirty_days new_id qrCodeData now consultationId
               providerId prescriptionData s) = s"
    unfolding createPrescription_def by (rule transaction_rolls_back)
next
  assume "c \<in> set (consultations s) \<and> c_id c = consultationId"
  then have "c \<in> set (filter (\<lambda>c. c_id c = consultationId) (consultations s))" by simp
  then obtain consultation rest
    where "filter (\<lambda>c. c_id c = consultationId) (consultations s) = consultation # rest"
    by (cases "filter (\<lambda>c. c_id c = consultationId) (consultations s)") auto
  then show "fst (createPrescription toDataURL in_thirty_days new_id qrCodeData now consultationId
               providerId prescriptionData s) \<noteq> Inl (AppError ''Consultation not found'' 404)"
    by (rule createPrescription_not_404)
next
  assume a: "c \<in> set (consultations s) \<and> c_id c = consultationId \<and>
        (\<forall>c' \<in> set (consultations s). c_id c' = consultationId \<longrightarrow> c' = c) \<and>
        varchar 255 qrCodeData = Some stored_qr \<and>
        new_id \<notin> set (map rx_id (prescriptions s)) \<and>
        stored_qr \<notin> set (map qr_code_data (prescriptions s)) \<and>
        providerId \<in> set (map p_id (providers s)) \<and>
        c_patient_id c \<in> set (map u_id (users s)) \<and>
        map (item_of_medication new_id) prescriptionData = map Some rows"
  then have "c \<in> set (filter (\<lambda>c. c_id c = consultationId) (consultations s))" by simp
  then obtain consultation rest
    where found: "filter (\<lambda>c. c_id c = consultationId) (consultations s) = consultation # rest"
    by (cases "filter (\<lambda>c. c_id c = consultationId) (consultations s)") auto
  then have "consultation \<in> set (filter (\<lambda>c. c_id c = consultationId) (consultations s))" by simp
  with a have first: "consultation = c" by simp
  from a have ids: "consultationId \<in> set (map c_id (consultations s))" by auto
  from a ids have ok: "prescription_insertable s
               (issued_prescription new_id stored_qr now (in_thirty_days now) consultationId providerId
                  (c_patient_id c) prescriptionData)"
    by (simp add: prescription_insertable_def issued_prescription_def)
  from a have qr: "varchar 255 qrCodeData = Some stored_qr"
    and items: "map (item_of_medication new_id) prescriptionData = map Some rows"
    by simp_all
  note r = createPrescription_present [where in_thirty_days = in_thirty_days and now = now
      and toDataURL = toDataURL, OF found [unfolded first] qr ok items]
  show "fst (createPrescription toDataURL in_thirty_days new_id qrCodeData now consultationId
               providerId prescriptionData s) =
          Inr (issued_prescription new_id stored_qr now (in_thirty_days now) consultationId
                 providerId (c_patient_id c) prescriptionData, toDataURL qrCodeData)"
    by (simp add: r)
  show "prescriptions (snd (createPrescription toDataURL in_thirty_days new_id qrCodeData now
                                consultationId providerId prescriptionData s)) =
            prescriptions s @
              [issued_prescription new_id stored_qr now (in_thirty_days now) consultationId
                 providerId (c_patient_id c) prescriptionData]"
    by (simp add: r)
  show "prescription_items (snd (createPrescription toDataURL in_thirty_days new_id qrCodeData
                                     now consultationId providerId prescriptionData s)) =
            prescription_items s @ rows"
    by (simp add: r)
qed

text \<open>
  C8 fails as stated. The example consultation is still \<^verbatim>\<open>requested\<close>, with no
  provider; a prescription issued against it is accepted and stored with its item.
\<close>

theorem createPrescription_requested_counterexample:
  "map c_status (consultations (clinic_db Requested None 2)) = [Requested]
   \<and> fst (createPrescription example_qr_image example_calendar ''rx-9'' ''T9'' 1000 ''e-1''
            ''0a1b2c3d-1111-4222-8333-444455556666'' [example_medication] (clinic_db Requested None 2)) =
       Inr (issued_prescription ''rx-9'' ''T9'' 1000 2592001000 ''e-1''
              ''0a1b2c3d-1111-4222-8333-444455556666'' ''u-patient-1'' [example_medication],
            ''data:image/png;base64,T9'')
   \<and> map rx_id (prescriptions (snd (createPrescription example_qr_image example_calendar ''rx-9''
            ''T9'' 1000 ''e-1'' ''0a1b2c3d-1111-4222-8333-444455556666'' [example_medication]
            (clinic_db Requested None 2)))) = [''rx-9'']
   \<and> map drug_name (prescription_items (snd (createPrescription example_qr_image example_calendar
            ''rx-9'' ''T9'' 1000 ''e-1'' ''0a1b2c3d-1111-4222-8333-444455556666'' [example_medication]
            (clinic_db Requested None 2)))) = [''Amoxicillin'']"
proof -
  have ok: "prescription_insertable (clinic_db Requested None 2)
      (issued_prescription ''rx-9'' ''T9'' 1000 (example_calendar 1000) ''e-1''
         ''0a1b2c3d-1111-4222-8333-444455556666''
         (c_patient_id (example_consultation Requested None)) [example_medication])"
    by (simp add: prescription_insertable_def issued_prescription_def clinic_db_facts)
  note r = createPrescription_present [where in_thirty_days = example_calendar and now = 1000
      and toDataURL = example_qr_image,
      OF clinic_db_facts(1) varchar_T9 ok example_medication_row]
  have cal: "example_calendar 1000 = 2592001000" by (simp add: example_calendar_def)
  show ?thesis
    unfolding r
    by (simp add: clinic_db_facts cal example_qr_image_def issued_prescription_def example_item_def)
qed

theorem createPrescription_status_blind_witness:
  "''e-404'' \<notin> set (map c_id (consultations (clinic_db Cancelled None 2)))
   \<and> createPrescription example_qr_image example_calendar ''rx-9'' ''T9'' 1000 ''e-404''
        ''0a1b2c3d-1111-4222-8333-444455556666'' [example_medication] (clinic_db Cancelled None 2) =
        (Inl (AppError ''Consultation not found'' 404), clinic_db Cancelled None 2)
   \<and> isl (fst (createPrescription example_qr_image example_calendar ''rx-9'' ''T9'' 1000 ''e-1''
        ''7e57ab1e-0000-4000-8000-000000000002'' [example_medication] (clinic_db Cancelled None 2)))
   \<and> snd (createPrescription example_qr_image example_calendar ''rx-9'' ''T9'' 1000 ''e-1''
        ''7e57ab1e-0000-4000-8000-000000000002'' [example_medication] (clinic_db Cancelled None 2)) =
        clinic_db Cancelled None 2
   \<and> example_consultation Cancelled None \<in> set (consultations (clinic_db Cancelled None 2))
   \<and> c_id (example_consultation Cancelled None) = ''e-1''
   \<and> c_status (example_consultation Cancelled None) = Cancelled
   \<and> varchar 255 ''T9'' = Some ''T9''
   \<and> ''rx-9'' \<notin> set (map rx_id (prescriptions (clinic_db Cancelled None 2)))
   \<and> ''T9'' \<notin> set (map qr_code_data (prescriptions (clinic_db Cancelled None 2)))
   \<and> ''0a1b2c3d-1111-4222-8333-444455556666'' \<in> set (map p_id (providers (clinic_db Cancelled None 2)))
   \<and> c_patient_id (example_consultation Cancelled None)
        \<in> set (map u_id (users (clinic_db Cancelled None 2)))
   \<and> map (item_of_medication ''rx-9'') [example_medication] =
        map Some [example_item\<lparr>it_prescription_id := ''rx-9''\<rparr>]
   \<and> fst (createPrescription example_qr_image example_calendar ''rx-9'' ''T9'' 1000 ''e-1''
            ''0a1b2c3d-1111-4222-8333-444455556666'' [example_medication] (clinic_db Cancelled None 2)) \<noteq>
        Inl (AppError ''Consultation not found'' 404)
   \<and> fst (createPrescription example_qr_image example_calendar ''rx-9'' ''T9'' 1000 ''e-1''
            ''0a1b2c3d-1111-4222-8333-444455556666'' [example_medication] (clinic_db Cancelled None 2)) =
        Inr (issued_prescription ''rx-9'' ''T9'' 1000 (example_calendar 1000) ''e-1''
               ''0a1b2c3d-1111-4222-8333-444455556666''
               (c_patient_id (example_consultation Cancelled None)) [example_medication],
             example_qr_image ''T9'')
   \<and> prescriptions (snd (createPrescription example_qr_image example_calendar ''rx-9'' ''T9'' 1000
            ''e-1'' ''0a1b2c3d-1111-4222-8333-444455556666'' [example_medication]
            (clinic_db Cancelled None 2))) =
        prescriptions (clinic_db Cancelled None 2) @
          [issued_prescription ''rx-9'' ''T9'' 1000 (example_calendar 1000) ''e-1''
             ''0a1b2c3d-1111-4222-8333-444455556666''
             (c_patient_id (example_consultation Cancelled None)) [example_medication]]
   \<and> prescription_items (snd (createPrescription example_qr_image example_calendar ''rx-9'' ''T9''
            1000 ''e-1'' ''0a1b2c3d-1111-4222-8333-444455556666'' [example_medication]
            (clinic_db Cancelled None 2))) =
        prescription_items (clinic_db Cancelled None 2) @
          [example_item\<lparr>it_prescription_id := ''rx-9''\<rparr>]"
proof -
  let ?s = "clinic_db Cancelled None 2"
  let ?gp = "''0a1b2c3d-1111-4222-8333-444455556666''"
  have h: "''e-404'' \<notin> set (map c_id (consultations ?s))"
    "example_consultation Cancelled None \<in> set (consultations ?s)"
    "c_id (example_consultation Cancelled None) = ''e-1''"
    "c_status (example_consultation Cancelled None) = Cancelled"
    "''rx-9'' \<notin> set (map rx_id (prescriptions ?s))"
    "''T9'' \<notin> set (map qr_code_data (prescriptions ?s))"
    "?gp \<in> set (map p_id (providers ?s))"
    "c_patient_id (example_consultation Cancelled None) \<in> set (map u_id (users ?s))"
    by (simp_all add: clinic_db_facts)
  have absent: "\<forall>c \<in> set (consultations ?s). c_id c \<noteq> ''e-404''"
    and uniq: "\<forall>c' \<in> set (consultations ?s). c_id c' = ''e-1'' \<longrightarrow> c' = example_consultation Cancelled None"
    by (simp_all add: clinic_db_facts)
  have rejected: "isl (fst (createPrescription example_qr_image example_calendar ''rx-9'' ''T9'' 1000 ''e-1''
        ''7e57ab1e-0000-4000-8000-000000000002'' [example_medication] ?s))"
    by (simp add: createPrescription_def transaction_def Let_def clinic_db_facts varchar_T9
        prescription_insertable_def)
  note t404 = createPrescription_status_blind [where s = ?s and consultationId = "''e-404''"
      and toDataURL = example_qr_image and in_thirty_days = example_calendar and new_id = "''rx-9''"
      and qrCodeData = "''T9''" and now = 1000 and providerId = ?gp
      and prescriptionData = "[example_medication]", THEN conjunct1]
  note tfail = createPrescription_status_blind [where s = ?s and consultationId = "''e-1''"
      and toDataURL = example_qr_image and in_thirty_days = example_calendar and new_id = "''rx-9''"
      and qrCodeData = "''T9''" and now = 1000
      and providerId = "''7e57ab1e-0000-4000-8000-000000000002''"
      and prescriptionData = "[example_medication]", THEN conjunct2, THEN conjunct1]
  note tok = createPrescription_status_blind [where s = ?s and consultationId = "''e-1''"
      and c = "example_consultation Cancelled None"
      and toDataURL = example_qr_image and in_thirty_days = example_calendar and new_id = "''rx-9''"
      and qrCodeData = "''T9''" and stored_qr = "''T9''" and now = 1000 and providerId = ?gp
      and prescriptionData = "[example_medication]"
      and rows = "[example_item\<lparr>it_prescription_id := ''rx-9''\<rparr>]", THEN conjunct2, THEN conjunct2]
  from t404 absent have a: "createPrescription example_qr_image example_calendar ''rx-9'' ''T9'' 1000 ''e-404''
        ?gp [example_medication] ?s = (Inl (AppError ''Consultation not found'' 404), ?s)"
    by blast
  from tfail rejected have b: "snd (createPrescription example_qr_image example_calendar ''rx-9'' ''T9'' 1000 ''e-1''
        ''7e57ab1e-0000-4000-8000-000000000002'' [example_medication] ?s) = ?s"
    by blast
  from tok h uniq varchar_T9 example_medication_row
  have c: "fst (createPrescription example_qr_image example_calendar ''rx-9'' ''T9'' 1000 ''e-1''
            ?gp [example_medication] ?s) \<noteq> Inl (AppError ''Consultation not found'' 404)"
    and d: "fst (createPrescription example_qr_image example_calendar ''rx-9'' ''T9'' 1000 ''e-1''
            ?gp [example_medication] ?s) =
        Inr (issued_prescription ''rx-9'' ''T9'' 1000 (example_calendar 1000) ''e-1'' ?gp
               (c_patient_id (example_consultation Cancelled None)) [example_medication],
             example_qr_image ''T9'')
      \<and> prescriptions (snd (createPrescription example_qr_image example_calendar ''rx-9'' ''T9'' 1000
            ''e-1'' ?gp [example_medication] ?s)) =
        prescriptions ?s @
          [issued_prescription ''rx-9'' ''T9'' 1000 (example_calendar 1000) ''e-1'' ?gp
             (c_patient_id (example_consultation Cancelled None)) [example_medication]]
      \<and> prescription_items (snd (createPrescription example_qr_image example_calendar ''rx-9'' ''T9''
            1000 ''e-1'' ?gp [example_medication] ?s)) =
        prescription_items ?s @ [example_item\<lparr>it_prescription_id := ''rx-9''\<rparr>]"
    by blast+
  from a b c d h rejected varchar_T9 example_medication_row show ?thesis by blast
qed

lemma verify_fst:
  "fst (verifyPrescriptionQR now qrCodeData pharmacyId s) =
     (case map fst (prescriptions_by_qr s qrCodeData) of
        [] \<Rightarrow> Invalid ''invalid_code''
      | p # _ \<Rightarrow> redeem_answer now p (prescription_items s))"
  by (simp add: verifyPrescriptionQR_def redeem_answer_def Let_def split: list.split prod.split)

lemma count_by_id:
  "map u_id us' = map u_id us \<Longrightarrow>
   length (filter (\<lambda>u. u_id u = x) us') = length (filter (\<lambda>u. u_id u = x) us)"
proof (induction us' arbitrary: us)
  case Nil
  then show ?case by simp
next
  case (Cons u us')
  then obtain v vs where "us = v # vs" "u_id u = u_id v" "map u_id us' = map u_id vs"
    by (cases us) auto
  with Cons.IH [of vs] show ?case by simp
qed

lemma joined_prescriptions:
  "map fst (concat (map (\<lambda>p. map (\<lambda>u. (p, full_name u)) (filter (\<lambda>u. u_id u = rx_patient_id p) us)) ps))
   = concat (map (\<lambda>p. replicate (length (filter (\<lambda>u. u_id u = rx_patient_id p) us)) p) ps)"
  by (induction ps) (simp_all add: comp_def map_replicate_const)

lemma by_qr_other_names:
  assumes ids: "map u_id us' = map u_id (users s)"
  shows "map fst (prescriptions_by_qr
           (s\<lparr>users := us',
              prescriptions := map (\<lambda>p. p\<lparr>prescribing_provider_id := g (prescribing_provider_id p)\<rparr>)
                                 (prescriptions s)\<rparr>) qrCodeData)
         = map (\<lambda>p. p\<lparr>prescribing_provider_id := g (prescribing_provider_id p)\<rparr>)
             (map fst (prescriptions_by_qr s qrCodeData))"
proof -
  let ?G = "\<lambda>p. p\<lparr>prescribing_provider_id := g (prescribing_provider_id p)\<rparr>"
  have "concat (map (\<lambda>p. replicate (length (filter (\<lambda>u. u_id u = rx_patient_id p) us')) p)
           (filter (\<lambda>p. qr_code_data p = qrCodeData) (map ?G ps)))
        = map ?G (concat (map (\<lambda>p. replicate (length (filter (\<lambda>u. u_id u = rx_patient_id p) (users s))) p)
           (filter (\<lambda>p. qr_code_data p = qrCodeData) ps)))" for ps
    by (induction ps) (simp_all add: count_by_id [OF ids])
  then show ?thesis
    unfolding prescriptions_by_qr_def joined_prescriptions by simp
qed

lemma redeem_answer_other_provider:
  assumes "take 8 (g (prescribing_provider_id p)) = take 8 (prescribing_provider_id p)"
  shows "redeem_answer now (p\<lparr>prescribing_provider_id := g (prescribing_provider_id p)\<rparr>) items =
         redeem_answer now p items"
  using assms by (simp add: redeem_answer_def)

text \<open>
  C9. A successful \<^verbatim>\<open>verifyPrescriptionQR\<close> returns, for a prescription with the
  scanned token, its id, its issue date, the five dispensing columns of its item rows,
  and the doctor as \<^verbatim>\<open>Dr.\<close> followed by the first eight characters of the
  provider id. No column of the patient is in the view, and the view does not depend
  on one: with the same ids in the user table and any other names, phone numbers and
  roles, and with provider ids replaced by any others with the same first eight
  characters, the same scan returns the same view.
\<close>

theorem redeem_view_masked:
  assumes ok: "verifyPrescriptionQR now qrCodeData pharmacyId s = (Valid v, s1)"
    and ids: "map u_id us' = map u_id (users s)"
    and prefix: "\<forall>x. take 8 (g x) = take 8 x"
  shows "(\<exists>p \<in> set (prescriptions s). qr_code_data p = qrCodeData \<and>
            v = \<lparr>pv_id = rx_id p,
                 pv_medications = map view_of_item
                    (filter (\<lambda>i. it_prescription_id i = rx_id p) (prescription_items s)),
                 prescribing_doctor = ''Dr. '' @ take 8 (prescribing_provider_id p),
                 issue_date = rx_created_at p\<rparr>)
       \<and> fst (verifyPrescriptionQR now qrCodeData pharmacyId
                (s\<lparr>users := us',
                   prescriptions := map (\<lambda>p. p\<lparr>prescribing_provider_id := g (prescribing_provider_id p)\<rparr>)
                                      (prescriptions s)\<rparr>)) = Valid v"
proof -
  let ?G = "\<lambda>p. p\<lparr>prescribing_provider_id := g (prescribing_provider_id p)\<rparr>"
  let ?s' = "s\<lparr>users := us', prescriptions := map ?G (prescriptions s)\<rparr>"
  from ok have v: "fst (verifyPrescriptionQR now qrCodeData pharmacyId s) = Valid v" by simp
  then obtain p rest where rows: "map fst (prescriptions_by_qr s qrCodeData) = p # rest"
    and ans: "redeem_answer now p (prescription_items s) = Valid v"
    unfolding verify_fst by (cases "map fst (prescriptions_by_qr s qrCodeData)") auto
  from rows have "p \<in> set (map fst (prescriptions_by_qr s qrCodeData))" by simp
  then have p: "p \<in> set (prescriptions s)" "qr_code_data p = qrCodeData"
    unfolding prescriptions_by_qr_fst by simp_all
  from ans have view: "v = \<lparr>pv_id = rx_id p,
                 pv_medications = map view_of_item
                    (filter (\<lambda>i. it_prescription_id i = rx_id p) (prescription_items s)),
                 prescribing_doctor = ''Dr. '' @ take 8 (prescribing_provider_id p),
                 issue_date = rx_created_at p\<rparr>"
    by (simp add: redeem_answer_def split: if_splits)
  from rows have "map fst (prescriptions_by_qr ?s' qrCodeData) = ?G p # map ?G rest"
    unfolding by_qr_other_names [OF ids] by simp
  then have "fst (verifyPrescriptionQR now qrCodeData pharmacyId ?s') =
             redeem_answer now (?G p) (prescription_items s)"
    unfolding verify_fst by simp
  also from prefix have "\<dots> = redeem_answer now p (prescription_items s)"
    by (simp add: redeem_answer_other_provider)
  finally have "fst (verifyPrescriptionQR now qrCodeData pharmacyId ?s') = Valid v"
    using ans by simp
  with p view show ?thesis by blast
qed

theorem redeem_view_masked_witness:
  "verifyPrescriptionQR 1000 ''T'' ''ph-1'' (rx_db True Rx_active) =
     (Valid example_view,
      (rx_db True Rx_active)\<lparr>pharmacy_claims :=
         [\<lparr>cl_prescription_id = ''rx-1'', cl_pharmacy_id = ''ph-1'', cl_status = Ready,
           dispensed_items = None, cl_created_at = 1000\<rparr>]\<rparr>)
   \<and> map u_id [other_patient, example_doctor] = map u_id (users (rx_db True Rx_active))
   \<and> (\<forall>x. take 8 (example_other_provider x) = take 8 x)
   \<and> example_other_provider ''0a1b2c3d-1111-4222-8333-444455556666'' =
        ''0a1b2c3d-9999-4999-8999-999999999999''
   \<and> fst (verifyPrescriptionQR 1000 ''T'' ''ph-1''
            ((rx_db True Rx_active)
               \<lparr>users := [other_patient, example_doctor],
                prescriptions :=
                  map (\<lambda>p. p\<lparr>prescribing_provider_id := example_other_provider (prescribing_provider_id p)\<rparr>)
                    (prescriptions (rx_db True Rx_active))\<rparr>)) = Valid example_view"
proof -
  have ok: "verifyPrescriptionQR 1000 ''T'' ''ph-1'' (rx_db True Rx_active) =
     (Valid example_view,
      (rx_db True Rx_active)\<lparr>pharmacy_claims :=
         [\<lparr>cl_prescription_id = ''rx-1'', cl_pharmacy_id = ''ph-1'', cl_status = Ready,
           dispensed_items = None, cl_created_at = 1000\<rparr>]\<rparr>)"
    by (simp add: verifyPrescriptionQR_def rx_db_by_qr Let_def example_view_def)
       (simp add: rx_db_def clinic_db_def empty_db_def example_prescription_def
          example_item_def view_of_item_def)
  have ids: "map u_id [other_patient, example_doctor] = map u_id (users (rx_db True Rx_active))"
    by (simp add: rx_db_def clinic_db_def empty_db_def other_patient_def example_patient_def)
  have prefix: "\<forall>x. take 8 (example_other_provider x) = take 8 x"
    by (simp add: example_other_provider_def)
  have other: "example_other_provider ''0a1b2c3d-1111-4222-8333-444455556666'' =
        ''0a1b2c3d-9999-4999-8999-999999999999''"
    by (simp add: example_other_provider_def)
  from redeem_view_masked [OF ok ids prefix] ok ids prefix other show ?thesis by blast
qed

section \<open>Properties of the consultation service\<close>

lemma extend_ok:
  assumes "\<forall>c \<in> set (consultations s). c_id c = consultationId \<longrightarrow> int4 (capacity_cap_minutes c + 10)"
  shows "extendConsultation consultationId reason s =
           (Inr (),
            s\<lparr>consultations :=
                 map (\<lambda>c. if c_id c = consultationId
                          then c\<lparr>capacity_cap_minutes := capacity_cap_minutes c + 10,
                                 referral_extension_applied := True, c_status := Extended\<rparr>
                          else c) (consultations s)\<rparr>)"
proof -
  from assms have "list_all (\<lambda>c. int4 (capacity_cap_minutes c + 10))
           (filter (\<lambda>c. c_id c = consultationId) (consultations s))"
    by (simp add: list_all_iff)
  then show ?thesis by (simp add: extendConsultation_def)
qed

lemma extend_overflow:
  assumes "c \<in> set (consultations s)" and "c_id c = consultationId"
    and "\<not> int4 (capacity_cap_minutes c + 10)"
  shows "extendConsultation consultationId reason s = (Inl (DbError ''integer out of range''), s)"
proof -
  from assms have "\<not> list_all (\<lambda>c. int4 (capacity_cap_minutes c + 10))
           (filter (\<lambda>c. c_id c = consultationId) (consultations s))"
    by (auto simp: list_all_iff)
  then show ?thesis by (simp add: extendConsultation_def)
qed

lemma extend_row_id:
  "c_id (((\<lambda>c. if c_id c = consultationId
               then c\<lparr>capacity_cap_minutes := capacity_cap_minutes c + 10,
                      referral_extension_applied := True, c_status := Extended\<rparr>
               else c) ^^ n) c) = c_id c"
  by (induction n) simp_all

lemma extend_row_cap:
  "capacity_cap_minutes (((\<lambda>c. if c_id c = consultationId
               then c\<lparr>capacity_cap_minutes := capacity_cap_minutes c + 10,
                      referral_extension_applied := True, c_status := Extended\<rparr>
               else c) ^^ n) c) =
       (if c_id c = consultationId then capacity_cap_minutes c + 10 * int n
        else capacity_cap_minutes c)"
  by (induction n) (simp_all add: extend_row_id)

lemma extend_times_consultations:
  assumes "\<forall>c \<in> set (consultations s). c_id c = consultationId \<longrightarrow>
             int4 (capacity_cap_minutes c) \<and> int4 (capacity_cap_minutes c + 10 * int n)"
  shows "consultations (extend_times n consultationId reason s) =
     map ((\<lambda>c. if c_id c = consultationId
               then c\<lparr>capacity_cap_minutes := capacity_cap_minutes c + 10,
                      referral_extension_applied := True, c_status := Extended\<rparr>
               else c) ^^ n) (consultations s)"
  using assms
proof (induction n)
  case 0
  show ?case by (simp add: extend_times_def)
next
  case (Suc n)
  let ?e = "\<lambda>c. if c_id c = consultationId
               then c\<lparr>capacity_cap_minutes := capacity_cap_minutes c + 10,
                      referral_extension_applied := True, c_status := Extended\<rparr>
               else c"
  let ?sn = "extend_times n consultationId reason s"
  from Suc.prems have "\<forall>c \<in> set (consultations s). c_id c = consultationId \<longrightarrow>
             int4 (capacity_cap_minutes c) \<and> int4 (capacity_cap_minutes c + 10 * int n)"
    by (auto simp: int4_def)
  then have sn: "consultations ?sn = map (?e ^^ n) (consultations s)" by (rule Suc.IH)
  have fits: "\<forall>d \<in> set (consultations ?sn). c_id d = consultationId \<longrightarrow> int4 (capacity_cap_minutes d + 10)"
  proof (intro ballI impI)
    fix d assume d: "d \<in> set (consultations ?sn)" "c_id d = consultationId"
    from d(1) obtain c where c: "c \<in> set (consultations s)" "d = (?e ^^ n) c"
      unfolding sn set_map by (elim imageE) 
    from d(2) have id: "c_id c = consultationId" unfolding c(2) extend_row_id .
    have "capacity_cap_minutes d = capacity_cap_minutes c + 10 * int n"
      unfolding c(2) extend_row_cap using id by simp
    moreover from Suc.prems c(1) id have "int4 (capacity_cap_minutes c + 10 * int (Suc n))" by blast
    ultimately show "int4 (capacity_cap_minutes d + 10)" by (simp add: algebra_simps)
  qed
  have "extend_times (Suc n) consultationId reason s = snd (extendConsultation consultationId reason ?sn)"
    by (simp add: extend_times_def)
  then have "consultations (extend_times (Suc n) consultationId reason s) = map ?e (consultations ?sn)"
    by (simp add: extend_ok [OF fits])
  then show ?case by (simp add: sn)
qed

lemma int4_between:
  "int4 a \<Longrightarrow> int4 (a + 10 * int n) \<Longrightarrow> k \<le> n \<Longrightarrow> int4 (a + 10 * int k)"
  by (simp add: int4_def)

lemma extend_times_fits:
  assumes bound: "\<forall>c \<in> set (consultations s). c_id c = consultationId \<longrightarrow>
             int4 (capacity_cap_minutes c) \<and> int4 (capacity_cap_minutes c + 10 * int n)"
    and k: "k < n"
    and d: "d \<in> set (consultations (extend_times k consultationId reason s))" "c_id d = consultationId"
  shows "int4 (capacity_cap_minutes d + 10)"
proof -
  from bound k have bk: "\<forall>c \<in> set (consultations s). c_id c = consultationId \<longrightarrow>
             int4 (capacity_cap_minutes c) \<and> int4 (capacity_cap_minutes c + 10 * int k)"
    by (auto intro: int4_between [where n = n])
  from d(1) obtain c where c: "c \<in> set (consultations s)"
    "d = ((\<lambda>c. if c_id c = consultationId
               then c\<lparr>capacity_cap_minutes := capacity_cap_minutes c + 10,
                      referral_extension_applied := True, c_status := Extended\<rparr>
               else c) ^^ k) c"
    unfolding extend_times_consultations [OF bk] set_map by (elim imageE)
  from d(2) have id: "c_id c = consultationId" unfolding c(2) extend_row_id .
  have cap: "capacity_cap_minutes d = capacity_cap_minutes c + 10 * int k"
    unfolding c(2) extend_row_cap using id by simp
  from bound c(1) id have "int4 (capacity_cap_minutes c)" "int4 (capacity_cap_minutes c + 10 * int n)"
    by blast+
  moreover from k have "Suc k \<le> n" by simp
  ultimately have "int4 (capacity_cap_minutes c + 10 * int (Suc k))" by (rule int4_between)
  with cap show ?thesis by (simp add: algebra_simps)
qed

text \<open>
  C6, as the code has it. \<^verbatim>\<open>extendConsultation\<close> is not idempotent. While the cap
  of the consultation stays in the range of its 32-bit column, that is for \<open>n\<close> calls
  on a cap \<open>m\<close> with \<open>m + 10 * n\<close> at most 2147483647, every call succeeds and adds
  ten minutes, whether or not \<^verbatim>\<open>referral_extension_applied\<close> was set: after the
  \<open>n\<close> calls the cap is \<open>m + 10 * n\<close>, and after a call the flag is set and the
  status is \<^verbatim>\<open>extended\<close>. A call that would take the cap of a consultation past
  2147483647 fails with \<^verbatim>\<open>integer out of range\<close> and changes nothing.
\<close>

theorem extend_adds_ten_each_time:
  assumes bound: "\<forall>c \<in> set (consultations s). c_id c = consultationId \<longrightarrow>
             int4 (capacity_cap_minutes c) \<and> int4 (capacity_cap_minutes c + 10 * int n)"
  shows "(\<forall>k < n. fst (extendConsultation consultationId reason
                          (extend_times k consultationId reason s)) = Inr ())
   \<and> map capacity_cap_minutes (consultations (extend_times n consultationId reason s)) =
       map (\<lambda>c. if c_id c = consultationId then capacity_cap_minutes c + 10 * int n
                else capacity_cap_minutes c) (consultations s)
   \<and> (0 < n \<longrightarrow>
        (\<forall>c \<in> set (consultations (snd (extendConsultation consultationId reason s))).
           c_id c = consultationId \<longrightarrow> referral_extension_applied c = True \<and> c_status c = Extended))
   \<and> (c' \<in> set (consultations s') \<and> c_id c' = consultationId \<and>
        2147483647 < capacity_cap_minutes c' + 10 \<longrightarrow>
        extendConsultation consultationId reason s' = (Inl (DbError ''integer out of range''), s'))"
proof -
  let ?e = "\<lambda>c. if c_id c = consultationId
               then c\<lparr>capacity_cap_minutes := capacity_cap_minutes c + 10,
                      referral_extension_applied := True, c_status := Extended\<rparr>
               else c"
  have each: "fst (extendConsultation consultationId reason
                     (extend_times k consultationId reason s)) = Inr ()" if "k < n" for k
  proof -
    have "\<forall>d \<in> set (consultations (extend_times k consultationId reason s)).
            c_id d = consultationId \<longrightarrow> int4 (capacity_cap_minutes d + 10)"
      using extend_times_fits [OF bound that] by blast
    then show ?thesis by (simp add: extend_ok)
  qed
  have caps: "map capacity_cap_minutes (consultations (extend_times n consultationId reason s)) =
       map (\<lambda>c. if c_id c = consultationId then capacity_cap_minutes c + 10 * int n
                else capacity_cap_minutes c) (consultations s)"
  proof -
    have "map capacity_cap_minutes (consultations (extend_times n consultationId reason s)) =
          map (\<lambda>c. capacity_cap_minutes ((?e ^^ n) c)) (consultations s)"
      unfolding extend_times_consultations [OF bound] map_map comp_def ..
    then show ?thesis by (simp only: extend_row_cap)
  qed
  have flag: "referral_extension_applied c = True \<and> c_status c = Extended"
    if n: "0 < n"
      and c: "c \<in> set (consultations (snd (extendConsultation consultationId reason s)))"
        "c_id c = consultationId" for c
  proof -
    have "\<forall>d \<in> set (consultations (extend_times 0 consultationId reason s)).
            c_id d = consultationId \<longrightarrow> int4 (capacity_cap_minutes d + 10)"
      using extend_times_fits [OF bound n] by blast
    then have "\<forall>d \<in> set (consultations s). c_id d = consultationId \<longrightarrow> int4 (capacity_cap_minutes d + 10)"
      by (simp add: extend_times_def)
    then have eq: "consultations (snd (extendConsultation consultationId reason s)) = map ?e (consultations s)"
      by (simp add: extend_ok)
    from c(1) obtain d where d: "c = ?e d" unfolding eq set_map by (rule imageE)
    show ?thesis
    proof (cases "c_id d = consultationId")
      case True
      with d show ?thesis by simp
    next
      case False
      with d c(2) show ?thesis by simp
    qed
  qed
  have over: "extendConsultation consultationId reason s' = (Inl (DbError ''integer out of range''), s')"
    if "c' \<in> set (consultations s')" "c_id c' = consultationId"
      "2147483647 < capacity_cap_minutes c' + 10"
  proof -
    from that(3) have "\<not> int4 (capacity_cap_minutes c' + 10)" by (simp add: int4_def)
    with that(1,2) show ?thesis by (rule extend_overflow)
  qed
  from each caps flag over show ?thesis by blast
qed

text \<open>
  C6 fails as stated. After one extension the example consultation has the flag set
  and a cap of 25 minutes; the second request succeeds and raises the cap to 35.
\<close>

theorem extend_twice_counterexample:
  "map (\<lambda>c. (referral_extension_applied c, capacity_cap_minutes c))
     (consultations (snd (extendConsultation ''e-1'' ''referral''
        (clinic_db Active (Some ''0a1b2c3d-1111-4222-8333-444455556666'') 2)))) = [(True, 25)]
   \<and> fst (extendConsultation ''e-1'' ''referral''
           (snd (extendConsultation ''e-1'' ''referral''
              (clinic_db Active (Some ''0a1b2c3d-1111-4222-8333-444455556666'') 2)))) = Inr ()
   \<and> map capacity_cap_minutes
       (consultations (snd (extendConsultation ''e-1'' ''referral''
           (snd (extendConsultation ''e-1'' ''referral''
              (clinic_db Active (Some ''0a1b2c3d-1111-4222-8333-444455556666'') 2)))))) = [35]"
  by (simp add: extendConsultation_def int4_def clinic_db_def empty_db_def example_consultation_def)

theorem extend_adds_ten_each_time_witness:
  "map (\<lambda>c. (c_id c, capacity_cap_minutes c))
     (consultations (clinic_db Active (Some ''0a1b2c3d-1111-4222-8333-444455556666'') 2)) = [(''e-1'', 15)]
   \<and> int4 15 \<and> int4 (15 + 10 * int 3)
   \<and> fst (extendConsultation ''e-1'' ''referral''
           (extend_times 2 ''e-1'' ''referral''
              (clinic_db Active (Some ''0a1b2c3d-1111-4222-8333-444455556666'') 2))) = Inr ()
   \<and> map capacity_cap_minutes
        (consultations (extend_times 3 ''e-1'' ''referral''
           (clinic_db Active (Some ''0a1b2c3d-1111-4222-8333-444455556666'') 2))) = [45]
   \<and> map (\<lambda>c. (c_id c, referral_extension_applied c, c_status c))
        (consultations (snd (extendConsultation ''e-1'' ''referral''
           (clinic_db Active (Some ''0a1b2c3d-1111-4222-8333-444455556666'') 2)))) =
        [(''e-1'', True, Extended)]
   \<and> full_cap_consultation \<in> set (consultations full_cap_db)
   \<and> c_id full_cap_consultation = ''e-1''
   \<and> capacity_cap_minutes full_cap_consultation = 2147483640
   \<and> extendConsultation ''e-1'' ''referral'' full_cap_db =
        (Inl (DbError ''integer out of range''), full_cap_db)"
proof -
  let ?s = "clinic_db Active (Some ''0a1b2c3d-1111-4222-8333-444455556666'') 2"
  have cs: "consultations ?s = [example_consultation Active (Some ''0a1b2c3d-1111-4222-8333-444455556666'')]"
    by (simp add: clinic_db_def empty_db_def)
  have row: "c_id (example_consultation Active (Some ''0a1b2c3d-1111-4222-8333-444455556666'')) = ''e-1''"
    "capacity_cap_minutes (example_consultation Active (Some ''0a1b2c3d-1111-4222-8333-444455556666'')) = 15"
    by (simp_all add: example_consultation_def)
  have fit: "int4 15" "int4 (15 + 10 * int 3)" by (simp_all add: int4_def)
  have bound: "\<forall>c \<in> set (consultations ?s). c_id c = ''e-1'' \<longrightarrow>
      int4 (capacity_cap_minutes c) \<and> int4 (capacity_cap_minutes c + 10 * int 3)"
    using fit by (simp add: cs row)
  have full: "full_cap_consultation \<in> set (consultations full_cap_db)"
    "c_id full_cap_consultation = ''e-1''"
    "capacity_cap_minutes full_cap_consultation = 2147483640"
    by (simp_all add: full_cap_db_def full_cap_consultation_def example_consultation_def)
  note t = extend_adds_ten_each_time [OF bound, where reason = "''referral''"
      and c' = full_cap_consultation and s' = full_cap_db]
  from t have a: "fst (extendConsultation ''e-1'' ''referral'' (extend_times 2 ''e-1'' ''referral'' ?s)) = Inr ()"
    by simp
  from t have b: "map capacity_cap_minutes (consultations (extend_times 3 ''e-1'' ''referral'' ?s)) = [45]"
    by (simp add: cs row)
  from t have flags: "\<forall>c \<in> set (consultations (snd (extendConsultation ''e-1'' ''referral'' ?s))).
           c_id c = ''e-1'' \<longrightarrow> referral_extension_applied c = True \<and> c_status c = Extended"
    by simp
  have ids: "map c_id (consultations (snd (extendConsultation ''e-1'' ''referral'' ?s))) = [''e-1'']"
    by (simp add: extendConsultation_def int4_def cs row)
  from flags ids have c: "map (\<lambda>c. (c_id c, referral_extension_applied c, c_status c))
        (consultations (snd (extendConsultation ''e-1'' ''referral'' ?s))) = [(''e-1'', True, Extended)]"
    by (cases "consultations (snd (extendConsultation ''e-1'' ''referral'' ?s))") auto
  from t full have d: "extendConsultation ''e-1'' ''referral'' full_cap_db =
        (Inl (DbError ''integer out of range''), full_cap_db)"
    by simp
  from a b c d fit full show ?thesis by (simp add: cs row)
qed

lemma start_consultations:
  "consultations (snd (startConsultation gpWhatsappNumber encodeURIComponent now consultationId providerId s)) =
     map (\<lambda>c. if c_id c = consultationId \<and> c_provider_id c = Some providerId
              then c\<lparr>c_status := Active, c_started_at := Some now\<rparr>
              else c) (consultations s)"
  by (simp add: startConsultation_def Let_def split: list.split)

lemma consultation_with_patient_empty:
  "consultation_with_patient s consultationId = [] \<longleftrightarrow>
     (\<forall>c \<in> set (consultations s). c_id c = consultationId \<longrightarrow>
        (\<forall>u \<in> set (users s). u_id u \<noteq> c_patient_id c))"
  by (auto simp: consultation_with_patient_def filter_empty_conv)

text \<open>
  C4, as the code has it. For a consultation that exists and whose patient exists,
  \<^verbatim>\<open>startConsultation\<close> returns normally whatever the status and whoever calls:
  it never fails with a conflict. When the caller is the consultation's provider the
  row becomes \<^verbatim>\<open>active\<close> with the start time set, from any status; when the caller
  is not, the row stays as it was.
\<close>

theorem start_has_no_state_guard:
  assumes c: "c \<in> set (consultations s)" "c_id c = consultationId"
    and u: "\<exists>u \<in> set (users s). u_id u = c_patient_id c"
  shows "(\<exists>r. fst (startConsultation gpWhatsappNumber encodeURIComponent now consultationId providerId s) = Inr r)
       \<and> (c_provider_id c = Some providerId \<longrightarrow>
            c\<lparr>c_status := Active, c_started_at := Some now\<rparr>
              \<in> set (consultations (snd (startConsultation gpWhatsappNumber encodeURIComponent now
                                            consultationId providerId s))))
       \<and> (c_provider_id c \<noteq> Some providerId \<longrightarrow>
            c \<in> set (consultations (snd (startConsultation gpWhatsappNumber encodeURIComponent now
                                            consultationId providerId s))))"
proof -
  let ?f = "\<lambda>c. if c_id c = consultationId \<and> c_provider_id c = Some providerId
              then c\<lparr>c_status := Active, c_started_at := Some now\<rparr> else c"
  let ?s1 = "s\<lparr>consultations := map ?f (consultations s)\<rparr>"
  from c(1) have in_s1: "?f c \<in> set (consultations ?s1)" by simp
  have fc: "c_id (?f c) = consultationId" "c_patient_id (?f c) = c_patient_id c"
    using c(2) by simp_all
  have us: "users ?s1 = users s" by simp
  have "consultation_with_patient ?s1 consultationId \<noteq> []"
  proof
    assume "consultation_with_patient ?s1 consultationId = []"
    then have "\<forall>c' \<in> set (consultations ?s1). c_id c' = consultationId \<longrightarrow>
        (\<forall>u \<in> set (users ?s1). u_id u \<noteq> c_patient_id c')"
      by (simp only: consultation_with_patient_empty)
    with in_s1 fc(1) have "\<forall>u \<in> set (users ?s1). u_id u \<noteq> c_patient_id (?f c)"
      by blast
    with u show False unfolding us fc(2) by blast
  qed
  then obtain row rest where "consultation_with_patient ?s1 consultationId = row # rest"
    by (cases "consultation_with_patient ?s1 consultationId") auto
  then have ok: "\<exists>r. fst (startConsultation gpWhatsappNumber encodeURIComponent now consultationId providerId s) = Inr r"
    by (cases row) (simp add: startConsultation_def Let_def)
  from c(1) have "?f c \<in> set (consultations (snd (startConsultation gpWhatsappNumber encodeURIComponent now
                                            consultationId providerId s)))"
    unfolding start_consultations by simp
  with c(2) have "(c_provider_id c = Some providerId \<longrightarrow>
            c\<lparr>c_status := Active, c_started_at := Some now\<rparr>
              \<in> set (consultations (snd (startConsultation gpWhatsappNumber encodeURIComponent now
                                            consultationId providerId s))))
       \<and> (c_provider_id c \<noteq> Some providerId \<longrightarrow>
            c \<in> set (consultations (snd (startConsultation gpWhatsappNumber encodeURIComponent now
                                            consultationId providerId s))))"
    by (cases "c_provider_id c = Some providerId") simp_all
  with ok show ?thesis by blast
qed

lemma completed_with_patient:
  "consultation_with_patient
     ((clinic_db st gp 2)\<lparr>consultations := [(example_consultation st gp)\<lparr>c_status := st', c_started_at := t\<rparr>]\<rparr>) ''e-1'' =
     [((example_consultation st gp)\<lparr>c_status := st', c_started_at := t\<rparr>, ''+254700000001'', Some ''Jane Patient'')]"
  by (simp add: consultation_with_patient_def clinic_db_def empty_db_def example_consultation_def
      example_patient_def example_doctor_def)

text \<open>
  \<^verbatim>\<open>endConsultation\<close> has no condition on the status either: every consultation
  with the id becomes \<^verbatim>\<open>completed\<close>.
\<close>

lemma endConsultation_any_status:
  assumes "c \<in> set (consultations s)" and "c_id c = consultationId"
  shows "fst (endConsultation now consultationId notes s) = Inr ()"
    and "map c_status (filter (\<lambda>c. c_id c = consultationId)
           (consultations (snd (endConsultation now consultationId notes s)))) =
         map (\<lambda>c. Completed) (filter (\<lambda>c. c_id c = consultationId) (consultations s))"
proof -
  from assms have "c \<in> set (filter (\<lambda>c. c_id c = consultationId) (consultations s))" by simp
  then obtain x xs where "filter (\<lambda>c. c_id c = consultationId) (consultations s) = x # xs"
    by (cases "filter (\<lambda>c. c_id c = consultationId) (consultations s)") auto
  then show "fst (endConsultation now consultationId notes s) = Inr ()"
    by (simp add: endConsultation_def Let_def)
  have "consultations (snd (endConsultation now consultationId notes s)) =
        map (\<lambda>c. if c_id c = consultationId
                 then c\<lparr>c_status := Completed, c_ended_at := Some now,
                        consultation_notes := Some notes,
                        duration_minutes :=
                          (case c_started_at c of
                             None \<Rightarrow> None
                           | Some started \<Rightarrow> Some ((now - started + 30000) div 60000))\<rparr>
                 else c) (consultations s)"
    by (simp add: endConsultation_def Let_def split: list.split)
  then show "map c_status (filter (\<lambda>c. c_id c = consultationId)
           (consultations (snd (endConsultation now consultationId notes s)))) =
         map (\<lambda>c. Completed) (filter (\<lambda>c. c_id c = consultationId) (consultations s))"
    by (simp add: filter_map comp_def)
qed

text \<open>
  C4 fails as stated. Started by its provider, the \<^verbatim>\<open>completed\<close> example
  consultation goes back to \<^verbatim>\<open>active\<close> and the call returns the consultation and
  the video link. Started by another provider, the \<^verbatim>\<open>matched\<close> consultation is
  returned unchanged, without an error; so is the \<^verbatim>\<open>requested\<close> one, which has no
  provider.
\<close>

theorem start_completed_counterexample:
  "map c_status (consultations (clinic_db Completed (Some ''0a1b2c3d-1111-4222-8333-444455556666'') 2)) =
     [Completed]
   \<and> fst (startConsultation ''254700000009'' example_encode 1000 ''e-1''
            ''0a1b2c3d-1111-4222-8333-444455556666''
            (clinic_db Completed (Some ''0a1b2c3d-1111-4222-8333-444455556666'') 2)) =
       Inr (((example_consultation Completed (Some ''0a1b2c3d-1111-4222-8333-444455556666''))
               \<lparr>c_status := Active, c_started_at := Some 1000\<rparr>,
             ''+254700000001'', Some ''Jane Patient''),
            ''https://wa.me/254700000009?text=Starting%20consultation%20e-1'')
   \<and> map c_status (consultations (snd (startConsultation ''254700000009'' example_encode 1000 ''e-1''
            ''0a1b2c3d-1111-4222-8333-444455556666''
            (clinic_db Completed (Some ''0a1b2c3d-1111-4222-8333-444455556666'') 2)))) = [Active]
   \<and> fst (startConsultation ''254700000009'' example_encode 1000 ''e-1''
            ''7e57ab1e-0000-4000-8000-000000000002''
            (clinic_db Matched (Some ''0a1b2c3d-1111-4222-8333-444455556666'') 2)) =
       Inr ((example_consultation Matched (Some ''0a1b2c3d-1111-4222-8333-444455556666''),
             ''+254700000001'', Some ''Jane Patient''),
            ''https://wa.me/254700000009?text=Starting%20consultation%20e-1'')
   \<and> fst (startConsultation ''254700000009'' example_encode 1000 ''e-1''
            ''0a1b2c3d-1111-4222-8333-444455556666'' (clinic_db Requested None 2)) =
       Inr ((example_consultation Requested None, ''+254700000001'', Some ''Jane Patient''),
            ''https://wa.me/254700000009?text=Starting%20consultation%20e-1'')"
proof -
  have link: "generateVideoCallLink ''254700000009'' example_encode ''e-1'' =
              ''https://wa.me/254700000009?text=Starting%20consultation%20e-1''"
    by (simp add: generateVideoCallLink_def example_encode_def)
  have q: "consultation_with_patient (clinic_db st gp 2) ''e-1'' =
             [(example_consultation st gp, ''+254700000001'', Some ''Jane Patient'')]" for st gp
    by (simp add: consultation_with_patient_def clinic_db_def empty_db_def example_consultation_def
      example_patient_def example_doctor_def)
  have cs: "consultations (clinic_db st gp 2) = [example_consultation st gp]" for st gp
    by (simp add: clinic_db_def empty_db_def)
  have f: "c_id (example_consultation st gp) = ''e-1''" "c_provider_id (example_consultation st gp) = gp"
    "c_status (example_consultation st gp) = st" for st gp
    by (simp_all add: example_consultation_def)
  have u: "(clinic_db st gp 2)\<lparr>consultations := [example_consultation st gp]\<rparr> = clinic_db st gp 2" for st gp
    by (simp add: clinic_db_def empty_db_def)
  show ?thesis
    by (simp add: startConsultation_def Let_def cs f u q completed_with_patient link)
qed

theorem start_has_no_state_guard_witness:
  "example_consultation Completed (Some ''0a1b2c3d-1111-4222-8333-444455556666'')
     \<in> set (consultations (clinic_db Completed (Some ''0a1b2c3d-1111-4222-8333-444455556666'') 2))
   \<and> c_id (example_consultation Completed (Some ''0a1b2c3d-1111-4222-8333-444455556666'')) = ''e-1''
   \<and> c_status (example_consultation Completed (Some ''0a1b2c3d-1111-4222-8333-444455556666'')) = Completed
   \<and> example_patient \<in> set (users (clinic_db Completed (Some ''0a1b2c3d-1111-4222-8333-444455556666'') 2))
   \<and> u_id example_patient =
       c_patient_id (example_consultation Completed (Some ''0a1b2c3d-1111-4222-8333-444455556666''))
   \<and> c_provider_id (example_consultation Completed (Some ''0a1b2c3d-1111-4222-8333-444455556666'')) =
       Some ''0a1b2c3d-1111-4222-8333-444455556666''
   \<and> (\<exists>r. fst (startConsultation ''254700000009'' example_encode 1000 ''e-1''
                  ''0a1b2c3d-1111-4222-8333-444455556666''
                  (clinic_db Completed (Some ''0a1b2c3d-1111-4222-8333-444455556666'') 2)) = Inr r)
   \<and> (example_consultation Completed (Some ''0a1b2c3d-1111-4222-8333-444455556666''))
         \<lparr>c_status := Active, c_started_at := Some 1000\<rparr>
       \<in> set (consultations (snd (startConsultation ''254700000009'' example_encode 1000 ''e-1''
                  ''0a1b2c3d-1111-4222-8333-444455556666''
                  (clinic_db Completed (Some ''0a1b2c3d-1111-4222-8333-444455556666'') 2))))"
proof -
  let ?gp = "''0a1b2c3d-1111-4222-8333-444455556666''"
  have h: "example_consultation Completed (Some ?gp) \<in> set (consultations (clinic_db Completed (Some ?gp) 2))"
    "c_id (example_consultation Completed (Some ?gp)) = ''e-1''"
    "c_status (example_consultation Completed (Some ?gp)) = Completed"
    "example_patient \<in> set (users (clinic_db Completed (Some ?gp) 2))"
    "u_id example_patient = c_patient_id (example_consultation Completed (Some ?gp))"
    "c_provider_id (example_consultation Completed (Some ?gp)) = Some ?gp"
    by (simp_all add: clinic_db_def empty_db_def example_consultation_def example_patient_def)
  from h(4,5) have u: "\<exists>u \<in> set (users (clinic_db Completed (Some ?gp) 2)).
      u_id u = c_patient_id (example_consultation Completed (Some ?gp))"
    by blast
  from start_has_no_state_guard [OF h(1,2) u, of "''254700000009''" example_encode 1000 ?gp] h
  show ?thesis by blast
qed

lemma availableGP_choice:
  assumes "availableGP s = gp # rest"
  shows "gp \<in> set (providers s) \<and> p_provider_type gp = Provider_gp \<and> p_is_active gp = True
       \<and> (case active_count s (p_id gp) of None \<Rightarrow> True | Some n \<Rightarrow> n < max_concurrent_sessions gp)
       \<and> (\<forall>p \<in> set (providers s).
             p_provider_type p = Provider_gp \<and> p_is_active p = True \<and>
             (case active_count s (p_id p) of None \<Rightarrow> True | Some n \<Rightarrow> n < max_concurrent_sessions p)
             \<longrightarrow> active_count s (p_id gp) \<le> active_count s (p_id p))"
proof -
  let ?P = "\<lambda>p. p_provider_type p = Provider_gp \<and> p_is_active p = True \<and>
             (case active_count s (p_id p) of None \<Rightarrow> True | Some n \<Rightarrow> n < max_concurrent_sessions p)"
  let ?f = "\<lambda>p. active_count s (p_id p)"
  let ?sorted = "sort_key ?f (filter ?P (providers s))"
  from assms have "take 1 ?sorted = gp # rest" by (simp add: availableGP_def)
  then obtain tl where srt: "?sorted = gp # tl" by (cases ?sorted) auto
  then have "gp \<in> set ?sorted" by simp
  then have gp: "gp \<in> set (providers s)" "?P gp" by simp_all
  have "sorted (map ?f ?sorted)" by (rule sorted_sort_key)
  with srt have "\<forall>y \<in> set tl. ?f gp \<le> ?f y" by simp
  with srt have "\<forall>y \<in> set ?sorted. ?f gp \<le> ?f y" by simp
  then have "\<forall>p \<in> set (providers s). ?P p \<longrightarrow> ?f gp \<le> ?f p" by simp
  with gp show ?thesis by blast
qed

lemma active_count_positive:
  "active_count s providerId = Some n \<Longrightarrow>
   n = int (length (filter (\<lambda>c. c_provider_id c = Some providerId \<and>
                              c_status c \<in> {Matched, Active, Extended}) (consultations s))) \<and> 0 < n"
  by (auto simp: active_count_def Let_def split: if_splits)

lemma availableGP_below_positive_capacity:
  assumes "availableGP s = gp # rest" and "1 \<le> max_concurrent_sessions gp"
  shows "int (length (filter (\<lambda>c. c_provider_id c = Some (p_id gp) \<and>
                                c_status c \<in> {Matched, Active, Extended}) (consultations s)))
         < max_concurrent_sessions gp"
proof (cases "active_count s (p_id gp)")
  case None
  then have "length (filter (\<lambda>c. c_provider_id c = Some (p_id gp) \<and>
                                c_status c \<in> {Matched, Active, Extended}) (consultations s)) = 0"
    by (simp add: active_count_def Let_def split: if_splits)
  with assms(2) show ?thesis by simp
next
  case (Some n)
  with availableGP_choice [OF assms(1)] have "n < max_concurrent_sessions gp" by simp
  with active_count_positive [OF Some] show ?thesis by simp
qed

text \<open>
  C5. The only provider is an active GP with \<^verbatim>\<open>max_concurrent_sessions = 0\<close> and no
  consultation in \<^verbatim>\<open>matched\<close>, \<^verbatim>\<open>active\<close> or \<^verbatim>\<open>extended\<close>: its count, 0,
  equals its capacity. The subquery has no row for it, the \<^verbatim>\<open>NULL\<close> count passes
  \<^verbatim>\<open>c.active_count IS NULL OR ...\<close> without being compared with the capacity, and
  \<^verbatim>\<open>assignGP\<close> returns normally with the consultation matched to that provider. For
  a provider of capacity at least 1 the query does keep the count below the capacity
  (\<open>availableGP_below_positive_capacity\<close>) and picks a least loaded one
  (\<open>availableGP_choice\<close>).
\<close>

theorem assignGP_zero_capacity:
  "max_concurrent_sessions (example_gp 0) = 0
   \<and> length (filter (\<lambda>c. c_provider_id c = Some (p_id (example_gp 0)) \<and>
                         c_status c \<in> {Matched, Active, Extended})
               (consultations (clinic_db Requested None 0))) = 0
   \<and> availableGP (clinic_db Requested None 0) = [example_gp 0]
   \<and> fst (assignGP example_notify 1000 ''e-1'' (clinic_db Requested None 0)) = Inr ()
   \<and> map (\<lambda>c. (c_id c, c_provider_id c, c_status c))
        (consultations (snd (assignGP example_notify 1000 ''e-1'' (clinic_db Requested None 0)))) =
       [(''e-1'', Some ''0a1b2c3d-1111-4222-8333-444455556666'', Matched)]"
proof -
  have a: "active_count (clinic_db Requested None 0) (p_id (example_gp 0)) = None"
    by (simp add: active_count_def clinic_db_def empty_db_def example_consultation_def)
  have av: "availableGP (clinic_db Requested None 0) = [example_gp 0]"
    by (simp add: availableGP_def active_count_def clinic_db_def empty_db_def example_gp_def
        example_consultation_def)
  show ?thesis
    by (simp add: assignGP_def av Let_def)
       (simp add: clinic_db_def empty_db_def example_gp_def example_consultation_def
          example_notify_def)
qed

end
